theory Spec2Isabelle
  imports Main "HOL-Library.Word" "HOL-Library.Signed_Division"
begin

section \<open>Overview\<close>

text \<open>
  The repository holds three versions of one program, which probes a host by connecting
  to it again and again: main.go (a probe each interval, or all probes at once as
  goroutines, with a summary at the end), part_000 (one probe after the other, with a
  summary at the end) and part_001 (one probe after the other, no summary). A definition
  with no suffix embeds main.go; the suffixes \<open>_000\<close> and \<open>_001\<close> mark the same function of
  part_000 and part_001 where its text differs. Methods carry the name of their receiver:
  \<open>Ping_Resolver\<close> is \<^verbatim>\<open>(*Ping).Resolver\<close>.
\<close>

section \<open>Go values\<close>

text \<open>
  \<open>int64\<close> stands for \<^verbatim>\<open>time.Duration\<close> (an \<^verbatim>\<open>int64\<close> of nanoseconds) and for Go's
  \<^verbatim>\<open>int\<close> on a 64-bit target. Addition and subtraction wrap around as Go's do; the
  comparisons of the source are the signed ones (\<open><s\<close>, \<open>\<le>s\<close>).
\<close>

type_synonym int64 = "64 word"

datatype panic = DivideByZero

text \<open>Go's \<^verbatim>\<open>/\<close> on integers: truncated towards zero, a run-time panic on a zero divisor.\<close>

definition quo :: "int64 \<Rightarrow> int64 \<Rightarrow> panic + int64" where
  "quo a b = (if b = 0 then Inl DivideByZero else Inr (word_of_int (sint a sdiv sint b)))"

text \<open>The verb \<^verbatim>\<open>%d\<close> of \<^verbatim>\<open>fmt.Sprintf\<close>.\<close>

fun digits :: "nat \<Rightarrow> string" where
  "digits n = (if n < 10 then [char_of (48 + n)] else digits (n div 10) @ [char_of (48 + n mod 10)])"

definition Sprint_d :: "int64 \<Rightarrow> string" where
  "Sprint_d i = (if i <s 0 then CHR ''-'' # digits (nat (- sint i)) else digits (nat (sint i)))"

section \<open>The data of the program\<close>

text \<open>The package-level variables, as they stand once the flags are parsed.\<close>

record Globals =
  DefaultTimeout :: int64
  DefaultHost :: string
  DefaultPort :: int64
  DefaultNet :: string
  DefaultInterval :: int64
  DefaultCount :: int64
  DefaultDNSNet :: string
  DefaultDNSAddr :: string

text \<open>
  \<^verbatim>\<open>type Ping struct\<close>. The field \<open>dialer\<close> exists in part_000 and part_001 only (there
  \<^verbatim>\<open>Ping()\<close> stores the dialer it builds; main.go keeps it in a local variable): it holds
  the dialer's \<^verbatim>\<open>Timeout\<close>, \<open>None\<close> for the nil pointer.
\<close>

record Ping =
  net :: string
  host :: string
  addr :: string
  port :: int64
  dialer :: "int64 option"
  timeout :: int64

text \<open>\<^verbatim>\<open>type Stats struct\<close>: the outcome of one probe. \<open>Error = None\<close> is the nil error.\<close>

record Stats =
  Time :: nat
  Duration :: int64
  Host :: string
  SAddr :: string
  DAddr :: string
  Error :: "string option"

text \<open>
  \<^verbatim>\<open>type Summary struct\<close>. \<open>MAX\<close>, \<open>MIN\<close>, \<open>SUM\<close> are binders of HOL, and \<open>Time\<close> is a
  field of \<open>Stats\<close>, so these fields carry the suffix \<open>_s\<close>. The mutex and the wait group
  of main.go are part of the run state below.
\<close>

record Summary =
  NET :: string
  MAX_s :: int64
  MIN_s :: int64
  AVG_s :: int64
  SUM_s :: int64
  Count :: int64
  ErrCount :: int64
  Time_s :: nat

section \<open>The environment\<close>

text \<open>What \<^verbatim>\<open>DialContext\<close> returns: a connection (its local address) or an error.\<close>

datatype dialed = Connected string | Refused string

text \<open>
  The world outside the program, as oracles. \<open>LookupHost r h\<close> is what the lookup of \<open>h\<close>
  returns through the resolver \<open>r\<close> (\<open>Some (network, address)\<close> for a custom DNS
  endpoint, \<open>None\<close> for the system's): Go's pair of an address list and an error.
  \<open>DialContext k t n a\<close> is what the \<open>k\<close>-th dial of the run returns, with dialer
  timeout \<open>t\<close>, on network \<open>n\<close>, to address \<open>a\<close>. \<open>Now k\<close> and \<open>Since k\<close> are the \<open>k\<close>-th
  reading of the clock, as \<^verbatim>\<open>time.Now()\<close> and as \<^verbatim>\<open>time.Since(t)\<close>. \<open>ToLower\<close> and
  \<open>ToUpper\<close> are those of package \<^verbatim>\<open>strings\<close>. \<open>sched k\<close> is the number of outstanding
  goroutines the Go scheduler runs to completion right after the \<open>k\<close>-th \<^verbatim>\<open>go\<close>
  statement, before the main flow goes on.
\<close>

record Env =
  LookupHost :: "(string \<times> string) option \<Rightarrow> string \<Rightarrow> string list \<times> string option"
  DialContext :: "nat \<Rightarrow> int64 \<Rightarrow> string \<Rightarrow> string \<Rightarrow> dialed"
  Now :: "nat \<Rightarrow> nat"
  Since :: "nat \<Rightarrow> int64"
  ToLower :: "string \<Rightarrow> string"
  ToUpper :: "string \<Rightarrow> string"
  sched :: "nat \<Rightarrow> nat"

text \<open>
  What the program does that can be observed, in order: each dial, each close of a
  connection, and each line it prints, with the values the line is formatted from.
\<close>

datatype event =
    Dial string string
  | Close
  | PrintError string
  | PrintDNS string string string int64
  | PrintOK nat string string int64
  | PrintFail nat string int64 string
  | PrintSummary string int64 int64 int64 int64 int64 "int64 option"

text \<open>
  The state of a run: the two objects the methods mutate through their pointer receivers,
  the events so far, the number of dials and of clock readings so far (the indices into
  the oracles), the counter of the wait group, the number of goroutines started with
  \<^verbatim>\<open>go\<close> that have not run yet, and the number of \<^verbatim>\<open>go\<close> statements so far.
\<close>

record State =
  ping :: Ping
  summary :: Summary
  out :: "event list"
  dials :: nat
  clock :: nat
  wg :: int
  pending :: nat
  spawned :: nat

fun is_probe_line :: "event \<Rightarrow> bool" where
  "is_probe_line (PrintOK t sa da d) = True"
| "is_probe_line (PrintFail t h p e) = True"
| "is_probe_line ev = False"

fun is_summary_line :: "event \<Rightarrow> bool" where
  "is_summary_line (PrintSummary n mx mn av c e el) = True"
| "is_summary_line ev = False"

section \<open>Resolver\<close>

text \<open>
  The resolver \<^verbatim>\<open>r\<close> that \<^verbatim>\<open>Resolver()\<close> builds first, in main.go and part_000: one that
  dials the custom DNS endpoint when both its address and its network are set, the
  system's otherwise.
\<close>

definition make_resolver :: "Globals \<Rightarrow> Env \<Rightarrow> (string \<times> string) option" where
  "make_resolver g env =
    (if DefaultDNSAddr g \<noteq> [] \<and> DefaultDNSNet g \<noteq> []
     then Some (ToLower env (DefaultDNSNet g), DefaultDNSAddr g) else None)"

text \<open>The same in part_001: the DNS network is passed on as it was given.\<close>

definition make_resolver_001 :: "Globals \<Rightarrow> (string \<times> string) option" where
  "make_resolver_001 g =
    (if DefaultDNSAddr g \<noteq> [] \<and> DefaultDNSNet g \<noteq> []
     then Some (DefaultDNSNet g, DefaultDNSAddr g) else None)"

text \<open>
  \<^verbatim>\<open>func (p *Ping) Resolver() error\<close> of main.go. The flag \<^verbatim>\<open>c\<close> of the source says that
  the resolver is the custom one.
\<close>

definition Ping_Resolver :: "Globals \<Rightarrow> Env \<Rightarrow> State \<Rightarrow> string option \<times> State" where
  "Ping_Resolver g env st =
    (let r = make_resolver g env;
         c = (r \<noteq> None);
         st1 = st\<lparr>clock := clock st + 1\<rparr>
     in case LookupHost env r (host (ping st1)) of
          (a, None) \<Rightarrow>
            (case a of
               a0 # rest \<Rightarrow>
                 (let st2 = (if CHR '':'' \<in> set a0
                             then st1\<lparr>ping := (ping st1)\<lparr>addr := ''['' @ a0 @ '']''\<rparr>\<rparr>
                             else st1\<lparr>ping := (ping st1)\<lparr>addr := a0\<rparr>\<rparr>);
                      st3 = (if c
                             then st2\<lparr>clock := clock st2 + 1,
                                      out := out st2 @ [PrintDNS (DefaultDNSAddr g) (host (ping st2))
                                                          (addr (ping st2)) (Since env (clock st2))]\<rparr>
                             else st2)
                  in (None, st3))
             | [] \<Rightarrow> (Some ''not found addr'', st1))
        | (a, Some e) \<Rightarrow> (Some e, st1))"

text \<open>The same method in part_000: no clock reading, no DNS line.\<close>

definition Ping_Resolver_000 :: "Globals \<Rightarrow> Env \<Rightarrow> State \<Rightarrow> string option \<times> State" where
  "Ping_Resolver_000 g env st =
    (case LookupHost env (make_resolver g env) (host (ping st)) of
       (a, None) \<Rightarrow>
         (case a of
            a0 # rest \<Rightarrow>
              (if CHR '':'' \<in> set a0
               then (None, st\<lparr>ping := (ping st)\<lparr>addr := ''['' @ a0 @ '']''\<rparr>\<rparr>)
               else (None, st\<lparr>ping := (ping st)\<lparr>addr := a0\<rparr>\<rparr>))
          | [] \<Rightarrow> (Some ''not found addr'', st))
     | (a, Some e) \<Rightarrow> (Some e, st))"

text \<open>The same method in part_001.\<close>

definition Ping_Resolver_001 :: "Globals \<Rightarrow> Env \<Rightarrow> State \<Rightarrow> string option \<times> State" where
  "Ping_Resolver_001 g env st =
    (case LookupHost env (make_resolver_001 g) (host (ping st)) of
       (a, None) \<Rightarrow>
         (case a of
            a0 # rest \<Rightarrow>
              (if CHR '':'' \<in> set a0
               then (None, st\<lparr>ping := (ping st)\<lparr>addr := ''['' @ a0 @ '']''\<rparr>\<rparr>)
               else (None, st\<lparr>ping := (ping st)\<lparr>addr := a0\<rparr>\<rparr>))
          | [] \<Rightarrow> (Some ''not found addr'', st))
     | (a, Some e) \<Rightarrow> (Some e, st))"

section \<open>Prober\<close>

text \<open>\<^verbatim>\<open>time.Duration(p.timeout) * time.Second\<close>.\<close>

definition Seconds :: "int64 \<Rightarrow> int64" where
  "Seconds n = n * 1000000000"

text \<open>
  The part of \<^verbatim>\<open>Ping()\<close> from the dial on, common to the three files: the dial, the
  reading of the elapsed time, the deferred close, and the outcome.
\<close>

definition dial_and_measure :: "Env \<Rightarrow> Stats \<Rightarrow> State \<Rightarrow> Stats \<times> State" where
  "dial_and_measure env stats st =
    (let p = ping st;
         stats1 = stats\<lparr>Host := host p, DAddr := addr p @ '':'' @ Sprint_d (port p)\<rparr>;
         stats2 = stats1\<lparr>Time := Now env (clock st)\<rparr>;
         st1 = st\<lparr>clock := clock st + 1\<rparr>;
         conn = DialContext env (dials st1) (Seconds (timeout p)) (net p) (DAddr stats2);
         st2 = st1\<lparr>dials := dials st1 + 1, out := out st1 @ [Dial (net p) (DAddr stats2)]\<rparr>;
         stats3 = stats2\<lparr>Duration := Since env (clock st2)\<rparr>;
         st3 = st2\<lparr>clock := clock st2 + 1\<rparr>
     in case conn of
          Refused e \<Rightarrow> (stats3\<lparr>Error := Some e\<rparr>, st3)
        | Connected l \<Rightarrow> (stats3\<lparr>SAddr := l\<rparr>, st3\<lparr>out := out st3 @ [Close]\<rparr>))"

text \<open>The lazy defaults of \<^verbatim>\<open>Ping()\<close>.\<close>

definition apply_defaults :: "Globals \<Rightarrow> Ping \<Rightarrow> Ping" where
  "apply_defaults g p =
    (let p1 = (if port p \<le>s 0 then p\<lparr>port := DefaultPort g\<rparr> else p);
         p2 = (if timeout p1 \<le>s 0 then p1\<lparr>timeout := DefaultTimeout g\<rparr> else p1)
     in if net p2 = [] then p2\<lparr>net := DefaultNet g\<rparr> else p2)"

text \<open>\<^verbatim>\<open>func (p *Ping) Ping() *Stats\<close> of main.go.\<close>

definition Ping_Ping :: "Globals \<Rightarrow> Env \<Rightarrow> State \<Rightarrow> Stats \<times> State" where
  "Ping_Ping g env st =
    (let stats = \<lparr>Time = Now env (clock st), Duration = 0, Host = [], SAddr = [], DAddr = [],
                  Error = None\<rparr>;
         st1 = st\<lparr>clock := clock st + 1\<rparr>
     in if addr (ping st1) = [] then (stats\<lparr>Error := Some ''invalid host''\<rparr>, st1)
        else dial_and_measure env stats (st1\<lparr>ping := apply_defaults g (ping st1)\<rparr>))"

text \<open>The same method in part_000 and part_001: the dialer is stored in the target.\<close>

definition Ping_Ping_000 :: "Globals \<Rightarrow> Env \<Rightarrow> State \<Rightarrow> Stats \<times> State" where
  "Ping_Ping_000 g env st =
    (let stats = \<lparr>Time = Now env (clock st), Duration = 0, Host = [], SAddr = [], DAddr = [],
                  Error = None\<rparr>;
         st1 = st\<lparr>clock := clock st + 1\<rparr>
     in if addr (ping st1) = [] then (stats\<lparr>Error := Some ''invalid host''\<rparr>, st1)
        else (let p = apply_defaults g (ping st1);
                  p1 = p\<lparr>dialer := Some (Seconds (timeout p))\<rparr>
              in dial_and_measure env stats (st1\<lparr>ping := p1\<rparr>)))"

section \<open>Aggregator\<close>

text \<open>
  The update of the summary by one outcome: lines 144 to 158 of main.go, between
  \<^verbatim>\<open>s.Lock.Lock()\<close> and \<^verbatim>\<open>s.Lock.Unlock()\<close>, and lines 142 to 156 of part_000, in the
  loop of \<^verbatim>\<open>Do\<close>. The mutex makes it one step.
\<close>

definition record_outcome :: "Stats \<Rightarrow> State \<Rightarrow> State" where
  "record_outcome stats st =
    (let s = (summary st)\<lparr>Count := Count (summary st) + 1\<rparr>
     in case Error stats of
          None \<Rightarrow>
            (let s1 = (if Duration stats <s MIN_s s \<or> MIN_s s = 0
                       then s\<lparr>MIN_s := Duration stats\<rparr> else s);
                 s2 = (if MAX_s s1 <s Duration stats then s1\<lparr>MAX_s := Duration stats\<rparr> else s1);
                 s3 = s2\<lparr>SUM_s := SUM_s s2 + Duration stats\<rparr>
             in st\<lparr>summary := s3,
                   out := out st @ [PrintOK (Time stats) (SAddr stats) (DAddr stats) (Duration stats)]\<rparr>)
        | Some e \<Rightarrow>
            st\<lparr>summary := s\<lparr>ErrCount := ErrCount s + 1\<rparr>,
               out := out st @ [PrintFail (Time stats) (host (ping st)) (port (ping st)) e]\<rparr>)"

text \<open>\<^verbatim>\<open>func (s *Summary) Result(ping *Ping)\<close> of main.go; the deferred \<^verbatim>\<open>WG.Done()\<close> last.\<close>

definition Summary_Result :: "Globals \<Rightarrow> Env \<Rightarrow> State \<Rightarrow> State" where
  "Summary_Result g env st =
    (case Ping_Ping g env st of
       (stats, st1) \<Rightarrow> (let st2 = record_outcome stats st1 in st2\<lparr>wg := wg st2 - 1\<rparr>))"

text \<open>\<^verbatim>\<open>func (s *Summary) Stats()\<close> of main.go.\<close>

definition Summary_Stats :: "Env \<Rightarrow> State \<Rightarrow> panic + State" where
  "Summary_Stats env st =
    (let s = summary st;
         count = Count s - ErrCount s
     in case (if 0 <s count
              then (case quo (SUM_s s) count of Inl e \<Rightarrow> Inl e | Inr q \<Rightarrow> Inr (s\<lparr>AVG_s := q\<rparr>))
              else Inr s) of
          Inl e \<Rightarrow> Inl e
        | Inr s1 \<Rightarrow>
            Inr (st\<lparr>summary := s1, clock := clock st + 1,
                    out := out st @ [PrintSummary (ToUpper env (NET s1)) (MAX_s s1) (MIN_s s1)
                                       (AVG_s s1) (Count s1) (ErrCount s1)
                                       (Some (Since env (clock st)))]\<rparr>))"

text \<open>The same method in part_000: the line has no elapsed time.\<close>

definition Summary_Stats_000 :: "Env \<Rightarrow> State \<Rightarrow> panic + State" where
  "Summary_Stats_000 env st =
    (let s = summary st;
         count = Count s - ErrCount s
     in case (if 0 <s count
              then (case quo (SUM_s s) count of Inl e \<Rightarrow> Inl e | Inr q \<Rightarrow> Inr (s\<lparr>AVG_s := q\<rparr>))
              else Inr s) of
          Inl e \<Rightarrow> Inl e
        | Inr s1 \<Rightarrow>
            Inr (st\<lparr>summary := s1,
                    out := out st @ [PrintSummary (ToUpper env (NET s1)) (MAX_s s1) (MIN_s s1)
                                       (AVG_s s1) (Count s1) (ErrCount s1) None]\<rparr>))"

section \<open>Scheduler\<close>

text \<open>
  A goroutine started by \<^verbatim>\<open>go s.Result(p)\<close> is one call of \<open>Summary_Result\<close>: the dial
  touches no shared field but the target's defaults, and the update of the summary is one
  step under the mutex, so every interleaving of goroutines is a sequence of such calls.
  \<open>run_goroutines n\<close> runs \<open>n\<close> of the outstanding ones to completion.
\<close>

primrec run_goroutines :: "Globals \<Rightarrow> Env \<Rightarrow> nat \<Rightarrow> State \<Rightarrow> State" where
  "run_goroutines g env 0 st = st"
| "run_goroutines g env (Suc n) st =
     run_goroutines g env n ((Summary_Result g env st)\<lparr>pending := pending st - 1\<rparr>)"

text \<open>The statement \<^verbatim>\<open>go s.Result(p)\<close>, and what the scheduler runs before the next one.\<close>

definition go_Result :: "Globals \<Rightarrow> Env \<Rightarrow> State \<Rightarrow> State" where
  "go_Result g env st =
    (let st1 = st\<lparr>pending := pending st + 1, spawned := spawned st + 1\<rparr>
     in run_goroutines g env (min (sched env (spawned st)) (pending st1)) st1)"

text \<open>
  \<^verbatim>\<open>s.WG.Wait()\<close>: the outstanding goroutines run to completion; the call returns when
  the counter is zero, and never otherwise.
\<close>

definition WG_Wait :: "Globals \<Rightarrow> Env \<Rightarrow> State \<Rightarrow> State option" where
  "WG_Wait g env st =
    (let st1 = run_goroutines g env (pending st) st in if wg st1 = 0 then Some st1 else None)"

text \<open>
  The body of the loop of \<^verbatim>\<open>Do\<close> in main.go, lines 173 to 179. The sleep changes nothing
  of the state.
\<close>

definition Do_body :: "Globals \<Rightarrow> Env \<Rightarrow> State \<Rightarrow> State" where
  "Do_body g env st =
    (let st1 = st\<lparr>wg := wg st + 1\<rparr>
     in if 0 <s DefaultInterval g then Summary_Result g env st1 else go_Result g env st1)"

text \<open>The loop of \<^verbatim>\<open>Do\<close> in main.go; \<open>None\<close> when it never leaves.\<close>

partial_function (option) Do_loop :: "Globals \<Rightarrow> Env \<Rightarrow> int64 \<Rightarrow> State \<Rightarrow> State option" where
  "Do_loop g env i st =
    (let st1 = Do_body g env st
     in if 0 \<le>s DefaultCount g
        then (let i1 = i + 1 in if DefaultCount g \<le>s i1 then Some st1 else Do_loop g env i1 st1)
        else Do_loop g env i st1)"

declare Do_loop.simps [code]

text \<open>
  \<^verbatim>\<open>func (p *Ping) Do(s *Summary)\<close> of main.go. The deferred calls run last in, first out:
  \<^verbatim>\<open>s.WG.Wait()\<close>, then \<^verbatim>\<open>s.Stats()\<close>.
\<close>

definition Ping_Do :: "Globals \<Rightarrow> Env \<Rightarrow> State \<Rightarrow> (panic + State) option" where
  "Ping_Do g env st =
    (case Ping_Resolver g env st of
       (Some e, st1) \<Rightarrow> Some (Inr (st1\<lparr>out := out st1 @ [PrintError e]\<rparr>))
     | (None, st1) \<Rightarrow>
         (case Do_loop g env 0 st1 of
            None \<Rightarrow> None
          | Some st2 \<Rightarrow>
              (case WG_Wait g env st2 of
                 None \<Rightarrow> None
               | Some st3 \<Rightarrow> Some (Summary_Stats env st3))))"

text \<open>
  The body of the loop of \<^verbatim>\<open>Do\<close> in part_000, lines 141 to 156: one probe, and the
  update of the summary by its outcome.
\<close>

definition Do_body_000 :: "Globals \<Rightarrow> Env \<Rightarrow> State \<Rightarrow> State" where
  "Do_body_000 g env st =
    (case Ping_Ping_000 g env st of (stats, st1) \<Rightarrow> record_outcome stats st1)"

text \<open>
  The loop of \<^verbatim>\<open>Do\<close> in part_000, lines 140 to 166; \<open>None\<close> when it never leaves. The
  sleep changes nothing of the state.
\<close>

partial_function (option) Do_loop_000 :: "Globals \<Rightarrow> Env \<Rightarrow> int64 \<Rightarrow> State \<Rightarrow> State option" where
  "Do_loop_000 g env i st =
    (let st1 = Do_body_000 g env st
     in if 0 <s DefaultCount g
        then (let i1 = i + 1
              in if DefaultCount g \<le>s i1 then Some st1 else Do_loop_000 g env i1 st1)
        else Do_loop_000 g env i st1)"

declare Do_loop_000.simps [code]

text \<open>\<^verbatim>\<open>func (p *Ping) Do(s *Summary)\<close> of part_000.\<close>

definition Ping_Do_000 :: "Globals \<Rightarrow> Env \<Rightarrow> State \<Rightarrow> (panic + State) option" where
  "Ping_Do_000 g env st =
    (case Ping_Resolver_000 g env st of
       (Some e, st1) \<Rightarrow> Some (Inr (st1\<lparr>out := out st1 @ [PrintError e]\<rparr>))
     | (None, st1) \<Rightarrow>
         (case Do_loop_000 g env 0 st1 of
            None \<Rightarrow> None
          | Some st2 \<Rightarrow> Some (Summary_Stats_000 env st2)))"

text \<open>
  \<^verbatim>\<open>func main()\<close> of main.go, from the flags as parsed: the fields the composite literals
  leave out have Go's zero values. The handler of interrupts is registered and never
  fires.
\<close>

definition Summary_zero :: "string \<Rightarrow> nat \<Rightarrow> Summary" where
  "Summary_zero n t =
    \<lparr>NET = n, MAX_s = 0, MIN_s = 0, AVG_s = 0, SUM_s = 0, Count = 0, ErrCount = 0, Time_s = t\<rparr>"

definition main_state :: "Globals \<Rightarrow> Env \<Rightarrow> State" where
  "main_state g env =
    \<lparr>ping = \<lparr>net = ToLower env (DefaultNet g), host = DefaultHost g, addr = [],
             port = DefaultPort g, dialer = None, timeout = DefaultTimeout g\<rparr>,
     summary = Summary_zero (ToLower env (DefaultNet g)) (Now env 0),
     out = [], dials = 0, clock = 1, wg = 0, pending = 0, spawned = 0\<rparr>"

definition main :: "Globals \<Rightarrow> Env \<Rightarrow> (panic + State) option" where
  "main g env = Ping_Do g env (main_state g env)"

text \<open>\<^verbatim>\<open>func main()\<close> of part_000: its summary has no start time.\<close>

definition main_state_000 :: "Globals \<Rightarrow> Env \<Rightarrow> State" where
  "main_state_000 g env =
    \<lparr>ping = \<lparr>net = ToLower env (DefaultNet g), host = DefaultHost g, addr = [],
             port = DefaultPort g, dialer = None, timeout = DefaultTimeout g\<rparr>,
     summary = Summary_zero (ToLower env (DefaultNet g)) 0,
     out = [], dials = 0, clock = 0, wg = 0, pending = 0, spawned = 0\<rparr>"

definition main_000 :: "Globals \<Rightarrow> Env \<Rightarrow> (panic + State) option" where
  "main_000 g env = Ping_Do_000 g env (main_state_000 g env)"

section \<open>Histories of the aggregator\<close>

text \<open>A sequence of recorded outcomes, and the outcomes among them with and without error.\<close>

definition record_all :: "Stats list \<Rightarrow> State \<Rightarrow> State" where
  "record_all outs st = foldl (\<lambda>s x. record_outcome x s) st outs"

definition successes :: "Stats list \<Rightarrow> Stats list" where
  "successes outs = filter (\<lambda>x. Error x = None) outs"

definition failures :: "Stats list \<Rightarrow> Stats list" where
  "failures outs = filter (\<lambda>x. Error x \<noteq> None) outs"

text \<open>
  The probe attempts a run has completed and the summaries it has rendered: each attempt
  prints one line, of success or of failure, and each rendering prints one summary line.
\<close>

definition attempts :: "State \<Rightarrow> nat" where
  "attempts st = length (filter is_probe_line (out st))"

definition rendered :: "State \<Rightarrow> nat" where
  "rendered st = length (filter is_summary_line (out st))"

text \<open>The statistics a summary line prints, and the average among them.\<close>

fun statistics :: "event \<Rightarrow> (string \<times> int64 \<times> int64 \<times> int64 \<times> int64 \<times> int64) option" where
  "statistics (PrintSummary n mx mn av c e el) = Some (n, mx, mn, av, c, e)"
| "statistics ev = None"

fun printed_avg :: "event \<Rightarrow> int64 option" where
  "printed_avg (PrintSummary n mx mn av c e el) = Some av"
| "printed_avg ev = None"

text \<open>
  A history of the aggregator: outcomes recorded and summaries rendered, in any order
  (the handler of interrupts renders too). \<open>replay\<close> runs one with a given renderer.
\<close>

datatype action = Record Stats | Render

fun is_success :: "action \<Rightarrow> bool" where
  "is_success (Record x) = (Error x = None)"
| "is_success Render = False"

fun replay :: "(State \<Rightarrow> panic + State) \<Rightarrow> action list \<Rightarrow> State \<Rightarrow> panic + State" where
  "replay render [] st = Inr st"
| "replay render (Record x # as) st = replay render as (record_outcome x st)"
| "replay render (Render # as) st =
     (case render st of Inl e \<Rightarrow> Inl e | Inr st1 \<Rightarrow> replay render as st1)"

text \<open>A state in which no success is on record and no average has been computed.\<close>

definition settled :: "State \<Rightarrow> bool" where
  "settled st = (AVG_s (summary st) = 0 \<and> Count (summary st) = ErrCount (summary st))"

section \<open>Sample inputs\<close>

text \<open>
  A configuration, an environment and outcomes to run the definitions on: three attempts,
  a host that resolves to two IPv4 addresses, one that resolves to an IPv6 address, one
  that resolves to no address, all others unknown; dials that succeed and fail in turn;
  the case mappings on the network names the sample uses.
\<close>

definition sample_globals :: Globals where
  "sample_globals =
    \<lparr>DefaultTimeout = 3, DefaultHost = ''example.org'', DefaultPort = 80, DefaultNet = ''tcp'',
     DefaultInterval = 1, DefaultCount = 3, DefaultDNSNet = ''udp'', DefaultDNSAddr = []\<rparr>"

definition sample_env :: Env where
  "sample_env =
    \<lparr>LookupHost = (\<lambda>r h. if h = ''example.org'' then ([''192.0.2.1'', ''192.0.2.2''], None)
                         else if h = ''v6.example.org'' then ([''2001:db8::1''], None)
                         else if h = ''empty.example.org'' then ([], None)
                         else ([], Some ''no such host'')),
     DialContext = (\<lambda>k t n a. if even k then Connected ''198.51.100.7:50000''
                               else Refused ''connection refused''),
     Now = (\<lambda>k. k),
     Since = (\<lambda>k. 1000 * of_nat k),
     ToLower = (\<lambda>x. if x = ''TCP'' then ''tcp'' else if x = ''UDP'' then ''udp'' else x),
     ToUpper = (\<lambda>x. if x = ''tcp'' then ''TCP'' else if x = ''udp'' then ''UDP'' else x),
     sched = (\<lambda>k. k mod 2)\<rparr>"

definition success :: "int64 \<Rightarrow> Stats" where
  "success d =
    \<lparr>Time = 0, Duration = d, Host = ''example.org'', SAddr = ''198.51.100.7:50000'',
     DAddr = ''192.0.2.1:80'', Error = None\<rparr>"

definition failure :: "int64 \<Rightarrow> Stats" where
  "failure d =
    \<lparr>Time = 0, Duration = d, Host = ''example.org'', SAddr = [],
     DAddr = ''192.0.2.1:80'', Error = Some ''connection refused''\<rparr>"

definition fresh :: State where
  "fresh = main_state sample_globals sample_env"

definition with_host :: "string \<Rightarrow> State \<Rightarrow> State" where
  "with_host h st = st\<lparr>ping := (ping st)\<lparr>host := h\<rparr>\<rparr>"

section \<open>The aggregator over a sequence of outcomes\<close>

lemma record_all_Nil: "record_all [] st = st"
  by (simp add: record_all_def)

lemma record_all_snoc: "record_all (xs @ [x]) st = record_outcome x (record_all xs st)"
  by (simp add: record_all_def)

lemma successes_snoc: "successes (xs @ [x]) = (if Error x = None then successes xs @ [x] else successes xs)"
  by (simp add: successes_def)

lemma failures_snoc: "failures (xs @ [x]) = (if Error x = None then failures xs else failures xs @ [x])"
  by (simp add: failures_def)

lemma Count_record_outcome: "Count (summary (record_outcome x st)) = Count (summary st) + 1"
  by (simp add: record_outcome_def Let_def split: option.split)

lemma ErrCount_record_outcome:
  "ErrCount (summary (record_outcome x st)) = (if Error x = None then ErrCount (summary st) else ErrCount (summary st) + 1)"
  by (simp add: record_outcome_def Let_def split: option.split)

lemma SUM_record_outcome:
  "SUM_s (summary (record_outcome x st)) = (if Error x = None then SUM_s (summary st) + Duration x else SUM_s (summary st))"
  by (simp add: record_outcome_def Let_def split: option.split)

lemma MAX_record_outcome:
  "MAX_s (summary (record_outcome x st)) =
     (if Error x = None \<and> MAX_s (summary st) <s Duration x then Duration x else MAX_s (summary st))"
  by (simp add: record_outcome_def Let_def split: option.split)

lemma MIN_record_outcome:
  "MIN_s (summary (record_outcome x st)) =
     (if Error x = None \<and> (Duration x <s MIN_s (summary st) \<or> MIN_s (summary st) = 0) then Duration x else MIN_s (summary st))"
  by (simp add: record_outcome_def Let_def split: option.split)

lemma AVG_record_outcome: "AVG_s (summary (record_outcome x st)) = AVG_s (summary st)"
  by (simp add: record_outcome_def Let_def split: option.split)

lemma Count_record_all: "Count (summary (record_all outs st)) = Count (summary st) + of_nat (length outs)"
  by (induction outs rule: rev_induct) (simp_all add: record_all_Nil record_all_snoc Count_record_outcome)

lemma ErrCount_record_all:
  "ErrCount (summary (record_all outs st)) = ErrCount (summary st) + of_nat (length (failures outs))"
  by (induction outs rule: rev_induct)
     (simp_all add: record_all_Nil record_all_snoc ErrCount_record_outcome failures_snoc, simp add: failures_def)

lemma SUM_record_all:
  "SUM_s (summary (record_all outs st)) = SUM_s (summary st) + sum_list (map Duration (successes outs))"
  by (induction outs rule: rev_induct)
     (simp_all add: record_all_Nil record_all_snoc SUM_record_outcome successes_snoc, simp add: successes_def)

lemma length_split: "length outs = length (successes outs) + length (failures outs)"
  by (induction outs) (simp_all add: successes_def failures_def)

lemma sint_of_nat_small: "n < 2 ^ 63 \<Longrightarrow> sint (of_nat n :: int64) = int n"
proof -
  assume "n < 2 ^ 63"
  then have "int n < 2 ^ 63" by (simp add: of_nat_less_iff [symmetric] del: of_nat_less_iff)
  moreover have "sint (of_nat n :: int64) = signed_take_bit 63 (int n)"
    using sint_sbintrunc' [where 'a = 64, of "int n"] by simp
  ultimately show ?thesis by (simp add: signed_take_bit_int_eq_self)
qed

lemma sum_list_word_of_int: "(sum_list ws :: int64) = word_of_int (sum_list (map sint ws))"
  by (induction ws) simp_all

lemma sint_sum_list:
  assumes "- (2 ^ 63) \<le> sum_list (map sint (ws :: int64 list))" "sum_list (map sint ws) < 2 ^ 63"
  shows "sint (sum_list ws) = sum_list (map sint ws)"
proof -
  have "sint (sum_list ws) = sint (word_of_int (sum_list (map sint ws)) :: int64)"
    using sum_list_word_of_int [of ws] by simp
  also have "\<dots> = signed_take_bit 63 (sum_list (map sint ws))"
    using sint_sbintrunc' [where 'a = 64, of "sum_list (map sint ws)"] by simp
  finally show ?thesis using assms by (simp add: signed_take_bit_int_eq_self)
qed

lemma summary_zero_fields:
  "Count (Summary_zero n t) = 0" "ErrCount (Summary_zero n t) = 0" "SUM_s (Summary_zero n t) = 0"
  "MAX_s (Summary_zero n t) = 0" "MIN_s (Summary_zero n t) = 0" "AVG_s (Summary_zero n t) = 0"
  by (simp_all add: Summary_zero_def)

lemma MAX_upper_bound:
  "x \<in> set (successes outs) \<Longrightarrow> Duration x \<le>s MAX_s (summary (record_all outs st))"
proof (induction outs rule: rev_induct)
  case Nil
  then show ?case by (simp add: successes_def)
next
  case (snoc y ys)
  show ?case
  proof (cases "x \<in> set (successes ys)")
    case True
    then have "Duration x \<le>s MAX_s (summary (record_all ys st))" by (rule snoc.IH)
    then show ?thesis
      by (simp add: record_all_snoc MAX_record_outcome word_sle_eq word_sless_alt)
  next
    case False
    with snoc.prems have "x = y" "Error y = None"
      by (auto simp: successes_snoc split: if_splits)
    then show ?thesis
      by (simp add: record_all_snoc MAX_record_outcome word_sle_eq word_sless_alt)
  qed
qed

lemma MAX_member:
  "MAX_s (summary (record_all outs st)) = MAX_s (summary st)
   \<or> MAX_s (summary (record_all outs st)) \<in> Duration ` set (successes outs)"
  by (induction outs rule: rev_induct)
     (auto simp: record_all_Nil record_all_snoc MAX_record_outcome successes_snoc)

lemma MIN_invariant:
  assumes "\<forall>x \<in> set (successes outs). Duration x \<noteq> 0" "MIN_s (summary st) = 0"
  shows "if successes outs = [] then MIN_s (summary (record_all outs st)) = 0
         else MIN_s (summary (record_all outs st)) \<noteq> 0
              \<and> MIN_s (summary (record_all outs st)) \<in> Duration ` set (successes outs)
              \<and> (\<forall>x \<in> set (successes outs). MIN_s (summary (record_all outs st)) \<le>s Duration x)"
  using assms(1)
proof (induction outs rule: rev_induct)
  case Nil
  then show ?case using assms(2) by (simp add: successes_def record_all_Nil)
next
  case (snoc y ys)
  then have nz: "\<forall>x \<in> set (successes ys). Duration x \<noteq> 0"
    by (auto simp: successes_snoc split: if_splits)
  note IH = snoc.IH [OF nz]
  show ?case
  proof (cases "Error y = None")
    case False
    then obtain e where "Error y = Some e" by auto
    then show ?thesis using IH
      by (simp add: successes_snoc record_all_snoc MIN_record_outcome)
  next
    case True
    then have y: "Duration y \<noteq> 0" using snoc.prems by (simp add: successes_snoc)
    show ?thesis
    proof (cases "successes ys = []")
      case True
      with IH have "MIN_s (summary (record_all ys st)) = 0" by simp
      then show ?thesis using \<open>Error y = None\<close> y True
        by (simp add: successes_snoc record_all_snoc MIN_record_outcome word_sle_eq)
    next
      case False
      with IH have m: "MIN_s (summary (record_all ys st)) \<noteq> 0"
        "MIN_s (summary (record_all ys st)) \<in> Duration ` set (successes ys)"
        "\<forall>x \<in> set (successes ys). MIN_s (summary (record_all ys st)) \<le>s Duration x"
        by simp_all
      show ?thesis using \<open>Error y = None\<close> y m
        by (auto simp: successes_snoc record_all_snoc MIN_record_outcome word_sle_eq word_sless_alt)
    qed
  qed
qed

text \<open>
  Claim C5. From a zero summary, after any sequence of outcomes, \<open>Count\<close> is the number of
  outcomes recorded, successes plus errors, and \<open>ErrCount\<close> the number of errors, as Go
  integers; below \<open>2 ^ 63\<close> outcomes \<open>Count\<close> is that number exactly.
\<close>

theorem count_is_attempts:
  "Count (summary (record_all outs (st\<lparr>summary := Summary_zero n t\<rparr>)))
     = of_nat (length (successes outs)) + of_nat (length (failures outs))
   \<and> ErrCount (summary (record_all outs (st\<lparr>summary := Summary_zero n t\<rparr>)))
     = of_nat (length (failures outs))
   \<and> length (successes outs) + length (failures outs) = length outs
   \<and> (length outs < 2 ^ 63 \<longrightarrow>
        sint (Count (summary (record_all outs (st\<lparr>summary := Summary_zero n t\<rparr>)))) = int (length outs))"
proof -
  let ?s = "summary (record_all outs (st\<lparr>summary := Summary_zero n t\<rparr>))"
  have c: "Count ?s = of_nat (length outs)"
    by (simp add: Count_record_all summary_zero_fields)
  have e: "ErrCount ?s = of_nat (length (failures outs))"
    by (simp add: ErrCount_record_all summary_zero_fields)
  have l: "length (successes outs) + length (failures outs) = length outs"
    using length_split [of outs] by simp
  have c2: "Count ?s = of_nat (length (successes outs)) + of_nat (length (failures outs))"
    unfolding c l [symmetric] by simp
  have i: "length outs < 2 ^ 63 \<longrightarrow> sint (Count ?s) = int (length outs)"
    unfolding c by (rule impI) (rule sint_of_nat_small)
  from c2 e l i show ?thesis by (intro conjI)
qed

text \<open>The count of claim C5 on the outcomes 7, an error, 3.\<close>

theorem count_is_attempts_witness:
  "length [success 7, failure 2, success 3] < 2 ^ 63
   \<and> sint (Count (summary (record_all [success 7, failure 2, success 3]
                              (fresh\<lparr>summary := Summary_zero ''tcp'' 0\<rparr>)))) = 3
   \<and> length (successes [success 7, failure 2, success 3]) = 2
   \<and> length (failures [success 7, failure 2, success 3]) = 1"
proof -
  have l: "length [success 7, failure 2, success 3] < 2 ^ 63" by simp
  from count_is_attempts [where outs = "[success 7, failure 2, success 3]" and st = fresh
      and n = "''tcp''" and t = 0] l
  have "sint (Count (summary (record_all [success 7, failure 2, success 3]
                              (fresh\<lparr>summary := Summary_zero ''tcp'' 0\<rparr>))))
        = int (length [success 7, failure 2, success 3])"
    by blast
  then show ?thesis
    by (simp add: successes_def failures_def success_def failure_def)
qed

text \<open>
  Claim C6. From a zero summary, after any sequence of outcomes, \<open>SUM_s\<close> is the sum of the
  durations of the outcomes without error, in Go's addition; outcomes with an error add
  nothing. When the sum of the durations as integers fits an \<^verbatim>\<open>int64\<close>, \<open>SUM_s\<close> is that
  sum exactly.
\<close>

theorem sum_is_sum_of_successes:
  "SUM_s (summary (record_all outs (st\<lparr>summary := Summary_zero n t\<rparr>)))
     = sum_list (map Duration (successes outs))
   \<and> (- (2 ^ 63) \<le> sum_list (map (\<lambda>x. sint (Duration x)) (successes outs))
      \<and> sum_list (map (\<lambda>x. sint (Duration x)) (successes outs)) < 2 ^ 63 \<longrightarrow>
        sint (SUM_s (summary (record_all outs (st\<lparr>summary := Summary_zero n t\<rparr>))))
          = sum_list (map (\<lambda>x. sint (Duration x)) (successes outs)))"
proof -
  let ?s = "summary (record_all outs (st\<lparr>summary := Summary_zero n t\<rparr>))"
  have s: "SUM_s ?s = sum_list (map Duration (successes outs))"
    by (simp add: SUM_record_all summary_zero_fields)
  have m: "map sint (map Duration (successes outs)) = map (\<lambda>x. sint (Duration x)) (successes outs)"
    by (simp add: comp_def)
  have "- (2 ^ 63) \<le> sum_list (map (\<lambda>x. sint (Duration x)) (successes outs))
      \<and> sum_list (map (\<lambda>x. sint (Duration x)) (successes outs)) < 2 ^ 63 \<longrightarrow>
        sint (SUM_s ?s) = sum_list (map (\<lambda>x. sint (Duration x)) (successes outs))"
    unfolding s using sint_sum_list [of "map Duration (successes outs)"] unfolding m by blast
  with s show ?thesis by (intro conjI)
qed

text \<open>The sum of claim C6 on the outcomes 7, an error, 3.\<close>

theorem sum_is_sum_of_successes_witness:
  "- (2 ^ 63) \<le> sum_list (map (\<lambda>x. sint (Duration x)) (successes [success 7, failure 2, success 3]))
   \<and> sum_list (map (\<lambda>x. sint (Duration x)) (successes [success 7, failure 2, success 3])) < 2 ^ 63
   \<and> sint (SUM_s (summary (record_all [success 7, failure 2, success 3]
                              (fresh\<lparr>summary := Summary_zero ''tcp'' 0\<rparr>)))) = 10"
proof -
  have s: "sum_list (map (\<lambda>x. sint (Duration x)) (successes [success 7, failure 2, success 3])) = 10"
    by (simp add: successes_def success_def failure_def)
  have r: "- (2 ^ 63) \<le> (10 :: int) \<and> (10 :: int) < 2 ^ 63" by simp
  from sum_is_sum_of_successes [where outs = "[success 7, failure 2, success 3]" and st = fresh
      and n = "''tcp''" and t = 0, unfolded s] r
  have "sint (SUM_s (summary (record_all [success 7, failure 2, success 3]
                              (fresh\<lparr>summary := Summary_zero ''tcp'' 0\<rparr>)))) = 10"
    by blast
  with r show ?thesis unfolding s by blast
qed

text \<open>
  Claim C1, as the code has it. From a zero summary, after any sequence of outcomes with at
  least one success: every successful duration recorded is at most \<open>MAX_s\<close>; if no
  successful duration recorded is zero, \<open>MIN_s\<close> is at most every one of them and is one of
  them (their minimum); if one of them is not negative, \<open>MAX_s\<close> is one of them (their
  maximum). The sequence is arbitrary, so this holds after each recorded outcome.
\<close>

theorem min_max_bounds:
  "successes outs \<noteq> [] \<Longrightarrow>
     (\<forall>x \<in> set (successes outs).
        Duration x \<le>s MAX_s (summary (record_all outs (st\<lparr>summary := Summary_zero n t\<rparr>))))
   \<and> ((\<forall>x \<in> set (successes outs). Duration x \<noteq> 0) \<longrightarrow>
        (\<forall>x \<in> set (successes outs).
           MIN_s (summary (record_all outs (st\<lparr>summary := Summary_zero n t\<rparr>))) \<le>s Duration x)
        \<and> MIN_s (summary (record_all outs (st\<lparr>summary := Summary_zero n t\<rparr>)))
            \<in> Duration ` set (successes outs))
   \<and> ((\<exists>x \<in> set (successes outs). 0 \<le>s Duration x) \<longrightarrow>
        MAX_s (summary (record_all outs (st\<lparr>summary := Summary_zero n t\<rparr>)))
          \<in> Duration ` set (successes outs))"
proof -
  assume ne: "successes outs \<noteq> []"
  let ?st = "st\<lparr>summary := Summary_zero n t\<rparr>"
  let ?s = "summary (record_all outs ?st)"
  have z: "MIN_s (summary ?st) = 0" "MAX_s (summary ?st) = 0"
    by (simp_all add: summary_zero_fields)
  have upper: "\<forall>x \<in> set (successes outs). Duration x \<le>s MAX_s ?s"
    by (simp add: MAX_upper_bound)
  have lower: "(\<forall>x \<in> set (successes outs). Duration x \<noteq> 0) \<longrightarrow>
        (\<forall>x \<in> set (successes outs). MIN_s ?s \<le>s Duration x)
        \<and> MIN_s ?s \<in> Duration ` set (successes outs)"
  proof
    assume "\<forall>x \<in> set (successes outs). Duration x \<noteq> 0"
    from MIN_invariant [OF this z(1)] ne
    show "(\<forall>x \<in> set (successes outs). MIN_s ?s \<le>s Duration x)
        \<and> MIN_s ?s \<in> Duration ` set (successes outs)"
      by simp
  qed
  have attained: "(\<exists>x \<in> set (successes outs). 0 \<le>s Duration x) \<longrightarrow>
        MAX_s ?s \<in> Duration ` set (successes outs)"
  proof
    assume "\<exists>x \<in> set (successes outs). 0 \<le>s Duration x"
    then obtain x where x: "x \<in> set (successes outs)" "0 \<le>s Duration x" by blast
    from x(1) upper have le: "Duration x \<le>s MAX_s ?s" by blast
    show "MAX_s ?s \<in> Duration ` set (successes outs)"
    proof (cases "MAX_s ?s = 0")
      case True
      with le x(2) have "Duration x = 0" by simp
      with True x(1) show ?thesis by force
    next
      case False
      with MAX_member [of outs ?st] z(2) show ?thesis by simp
    qed
  qed
  from upper lower attained show ?thesis by (intro conjI)
qed

text \<open>The bounds of claim C1 on the outcomes 7, an error, 3, 9.\<close>

theorem min_max_bounds_witness:
  "successes [success 7, failure 2, success 3, success 9] \<noteq> []
   \<and> Duration (success 7)
        \<le>s MAX_s (summary (record_all [success 7, failure 2, success 3, success 9]
                             (fresh\<lparr>summary := Summary_zero ''tcp'' 0\<rparr>)))
   \<and> MIN_s (summary (record_all [success 7, failure 2, success 3, success 9]
                             (fresh\<lparr>summary := Summary_zero ''tcp'' 0\<rparr>)))
        \<le>s Duration (success 7)
   \<and> MIN_s (summary (record_all [success 7, failure 2, success 3, success 9]
                             (fresh\<lparr>summary := Summary_zero ''tcp'' 0\<rparr>)))
        \<in> Duration ` set (successes [success 7, failure 2, success 3, success 9])
   \<and> MAX_s (summary (record_all [success 7, failure 2, success 3, success 9]
                             (fresh\<lparr>summary := Summary_zero ''tcp'' 0\<rparr>)))
        \<in> Duration ` set (successes [success 7, failure 2, success 3, success 9])"
proof -
  let ?outs = "[success 7, failure 2, success 3, success 9]"
  have s: "successes ?outs = [success 7, success 3, success 9]"
    by (simp add: successes_def success_def failure_def)
  have ne: "successes ?outs \<noteq> []" unfolding s by simp
  have nz: "\<forall>x \<in> set (successes ?outs). Duration x \<noteq> 0"
    unfolding s by (simp add: success_def)
  have pos: "\<exists>x \<in> set (successes ?outs). 0 \<le>s Duration x"
    unfolding s by (simp add: success_def word_sle_eq)
  have m: "success 7 \<in> set (successes ?outs)" unfolding s by simp
  from min_max_bounds [OF ne, where st = fresh and n = "''tcp''" and t = 0] nz pos m ne show ?thesis by blast
qed

text \<open>
  Claim C1 as stated fails for a success of duration zero: zero is what \<open>record_outcome\<close>
  takes for "no minimum yet", so the success after it overwrites the minimum. After the
  successes 0 and 5, \<open>MIN_s\<close> is 5, above the recorded duration 0.
\<close>

theorem min_zero_sentinel_counterexample:
  "success 0 \<in> set (successes [success 0, success 5])
   \<and> \<not> MIN_s (summary (record_all [success 0, success 5]
                             (fresh\<lparr>summary := Summary_zero ''tcp'' 0\<rparr>)))
        \<le>s Duration (success 0)"
  by (simp add: successes_def success_def record_all_def record_outcome_def Summary_zero_def
        word_sle_eq word_sless_alt)

section \<open>Rendering the summary\<close>

lemma sless_zero_not_zero: "0 <s (c :: int64) \<Longrightarrow> c \<noteq> 0"
  by (auto simp: word_sless_alt)

lemma Summary_Stats_eq:
  "Summary_Stats env st =
     Inr (st\<lparr>summary := (if 0 <s Count (summary st) - ErrCount (summary st)
                          then (summary st)\<lparr>AVG_s := word_of_int (sint (SUM_s (summary st))
                                   sdiv sint (Count (summary st) - ErrCount (summary st)))\<rparr>
                          else summary st),
            clock := clock st + 1,
            out := out st @ [PrintSummary (ToUpper env (NET (summary st))) (MAX_s (summary st))
                 (MIN_s (summary st))
                 (if 0 <s Count (summary st) - ErrCount (summary st)
                  then word_of_int (sint (SUM_s (summary st))
                          sdiv sint (Count (summary st) - ErrCount (summary st)))
                  else AVG_s (summary st))
                 (Count (summary st)) (ErrCount (summary st)) (Some (Since env (clock st)))]\<rparr>)"
  by (simp add: Summary_Stats_def Let_def quo_def sless_zero_not_zero)

lemma Summary_Stats_000_eq:
  "Summary_Stats_000 env st =
     Inr (st\<lparr>summary := (if 0 <s Count (summary st) - ErrCount (summary st)
                          then (summary st)\<lparr>AVG_s := word_of_int (sint (SUM_s (summary st))
                                   sdiv sint (Count (summary st) - ErrCount (summary st)))\<rparr>
                          else summary st),
            out := out st @ [PrintSummary (ToUpper env (NET (summary st))) (MAX_s (summary st))
                 (MIN_s (summary st))
                 (if 0 <s Count (summary st) - ErrCount (summary st)
                  then word_of_int (sint (SUM_s (summary st))
                          sdiv sint (Count (summary st) - ErrCount (summary st)))
                  else AVG_s (summary st))
                 (Count (summary st)) (ErrCount (summary st)) None]\<rparr>)"
  by (simp add: Summary_Stats_000_def Let_def quo_def sless_zero_not_zero)

lemma replay_snoc_Render:
  "replay render (h @ [Render]) st =
     (case replay render h st of Inl e \<Rightarrow> Inl e | Inr st1 \<Rightarrow> render st1)"
  by (induction render h st rule: replay.induct) (simp_all split: sum.splits)

lemma settled_record:
  "settled st \<Longrightarrow> Error x \<noteq> None \<Longrightarrow> settled (record_outcome x st)"
  by (auto simp: settled_def record_outcome_def Let_def)

lemma settled_Stats: "settled st \<Longrightarrow> \<exists>st1. Summary_Stats env st = Inr st1 \<and> settled st1"
  by (simp add: Summary_Stats_eq settled_def word_sless_alt)

lemma settled_Stats_000: "settled st \<Longrightarrow> \<exists>st1. Summary_Stats_000 env st = Inr st1 \<and> settled st1"
  by (simp add: Summary_Stats_000_eq settled_def word_sless_alt)

lemma replay_settled:
  assumes r: "\<And>st. settled st \<Longrightarrow> \<exists>st1. render st = Inr st1 \<and> settled st1"
  shows "settled st \<Longrightarrow> filter is_success h = [] \<Longrightarrow>
         \<exists>st1. replay render h st = Inr st1 \<and> settled st1"
proof (induction h arbitrary: st)
  case Nil
  then show ?case by simp
next
  case (Cons a h)
  show ?case
  proof (cases a)
    case (Record x)
    with Cons.prems have "Error x \<noteq> None" "filter is_success h = []"
      by (auto split: if_splits)
    with Cons.prems(1) Cons.IH [of "record_outcome x st"] Record show ?thesis
      by (simp add: settled_record)
  next
    case Render
    from r [OF Cons.prems(1)] obtain st1 where s: "render st = Inr st1" "settled st1" by blast
    from Cons.prems have "filter is_success h = []" by (auto split: if_splits)
    with Cons.IH [OF s(2)] s(1) Render show ?thesis by simp
  qed
qed

lemma replay_total:
  assumes r: "\<And>st. \<exists>st1. render st = Inr st1"
  shows "\<exists>st1. replay render h st = Inr st1"
proof (induction h arbitrary: st)
  case Nil
  then show ?case by simp
next
  case (Cons a h)
  show ?case
  proof (cases a)
    case (Record x)
    with Cons.IH [of "record_outcome x st"] show ?thesis by simp
  next
    case Render
    from r [of st] obtain st1 where "render st = Inr st1" by blast
    with Cons.IH [of st1] Render show ?thesis by simp
  qed
qed

lemma settled_zero: "settled (st\<lparr>summary := Summary_zero n t\<rparr>)"
  by (simp add: settled_def Summary_zero_def)

lemma sample_summary:
  "summary (record_all [success 7, failure 2, success 4] (fresh\<lparr>summary := Summary_zero ''tcp'' 0\<rparr>))
     = \<lparr>NET = ''tcp'', MAX_s = 7, MIN_s = 4, AVG_s = 0, SUM_s = 11, Count = 3, ErrCount = 1, Time_s = 0\<rparr>"
  by (simp add: record_all_def record_outcome_def success_def failure_def Summary_zero_def
        word_sless_alt)

text \<open>
  Claim C2. Rendering never divides by zero: \<open>Summary_Stats\<close> of main.go and of part_000
  return normally from every state, and so does every history of recordings and
  renderings. The average printed is \<open>SUM_s / (Count - ErrCount)\<close>, Go's quotient, whenever
  \<open>Count - ErrCount\<close> is positive, and the stored average otherwise; from a zero summary,
  after any history without a successful outcome, the average printed is zero.
\<close>

theorem Stats_average:
  "(\<exists>st1 av. Summary_Stats env st = Inr st1
       \<and> printed_avg (last (out st1)) = Some av
       \<and> (0 <s Count (summary st) - ErrCount (summary st) \<longrightarrow>
            quo (SUM_s (summary st)) (Count (summary st) - ErrCount (summary st)) = Inr av)
       \<and> (\<not> 0 <s Count (summary st) - ErrCount (summary st) \<longrightarrow> av = AVG_s (summary st)))
   \<and> (\<exists>st1 av. Summary_Stats_000 env st = Inr st1
       \<and> printed_avg (last (out st1)) = Some av
       \<and> (0 <s Count (summary st) - ErrCount (summary st) \<longrightarrow>
            quo (SUM_s (summary st)) (Count (summary st) - ErrCount (summary st)) = Inr av)
       \<and> (\<not> 0 <s Count (summary st) - ErrCount (summary st) \<longrightarrow> av = AVG_s (summary st)))
   \<and> (\<exists>st1. replay (Summary_Stats env) h st = Inr st1)
   \<and> (\<exists>st1. replay (Summary_Stats_000 env) h st = Inr st1)
   \<and> (filter is_success h = [] \<longrightarrow>
        (\<exists>st1. replay (Summary_Stats env) (h @ [Render]) (st\<lparr>summary := Summary_zero n t\<rparr>) = Inr st1
           \<and> printed_avg (last (out st1)) = Some 0)
        \<and> (\<exists>st1. replay (Summary_Stats_000 env) (h @ [Render]) (st\<lparr>summary := Summary_zero n t\<rparr>) = Inr st1
           \<and> printed_avg (last (out st1)) = Some 0))"
proof -
  let ?c = "Count (summary st) - ErrCount (summary st)"
  have a: "\<exists>st1 av. Summary_Stats env st = Inr st1
       \<and> printed_avg (last (out st1)) = Some av
       \<and> (0 <s ?c \<longrightarrow> quo (SUM_s (summary st)) ?c = Inr av)
       \<and> (\<not> 0 <s ?c \<longrightarrow> av = AVG_s (summary st))"
    by (simp add: Summary_Stats_eq quo_def sless_zero_not_zero)
  have b: "\<exists>st1 av. Summary_Stats_000 env st = Inr st1
       \<and> printed_avg (last (out st1)) = Some av
       \<and> (0 <s ?c \<longrightarrow> quo (SUM_s (summary st)) ?c = Inr av)
       \<and> (\<not> 0 <s ?c \<longrightarrow> av = AVG_s (summary st))"
    by (simp add: Summary_Stats_000_eq quo_def sless_zero_not_zero)
  have c: "\<exists>st1. replay (Summary_Stats env) h st = Inr st1"
    by (rule replay_total) (simp add: Summary_Stats_eq)
  have d: "\<exists>st1. replay (Summary_Stats_000 env) h st = Inr st1"
    by (rule replay_total) (simp add: Summary_Stats_000_eq)
  have e: "filter is_success h = [] \<longrightarrow>
        (\<exists>st1. replay (Summary_Stats env) (h @ [Render]) (st\<lparr>summary := Summary_zero n t\<rparr>) = Inr st1
           \<and> printed_avg (last (out st1)) = Some 0)
        \<and> (\<exists>st1. replay (Summary_Stats_000 env) (h @ [Render]) (st\<lparr>summary := Summary_zero n t\<rparr>) = Inr st1
           \<and> printed_avg (last (out st1)) = Some 0)"
  proof
    assume ns: "filter is_success h = []"
    let ?z = "st\<lparr>summary := Summary_zero n t\<rparr>"
    from replay_settled [of "Summary_Stats env", OF settled_Stats settled_zero ns]
    obtain s1 where s1: "replay (Summary_Stats env) h ?z = Inr s1" "settled s1" by blast
    from replay_settled [of "Summary_Stats_000 env", OF settled_Stats_000 settled_zero ns]
    obtain s2 where s2: "replay (Summary_Stats_000 env) h ?z = Inr s2" "settled s2" by blast
    have "\<exists>st1. replay (Summary_Stats env) (h @ [Render]) ?z = Inr st1
           \<and> printed_avg (last (out st1)) = Some 0"
      using s1 by (simp add: replay_snoc_Render Summary_Stats_eq settled_def word_sless_alt)
    moreover have "\<exists>st1. replay (Summary_Stats_000 env) (h @ [Render]) ?z = Inr st1
           \<and> printed_avg (last (out st1)) = Some 0"
      using s2 by (simp add: replay_snoc_Render Summary_Stats_000_eq settled_def word_sless_alt)
    ultimately show "(\<exists>st1. replay (Summary_Stats env) (h @ [Render]) ?z = Inr st1
           \<and> printed_avg (last (out st1)) = Some 0)
        \<and> (\<exists>st1. replay (Summary_Stats_000 env) (h @ [Render]) ?z = Inr st1
           \<and> printed_avg (last (out st1)) = Some 0)" by blast
  qed
  from a b c d e show ?thesis by (intro conjI)
qed

text \<open>
  The average of claim C2 after the outcomes 7, an error, 4: the quotient of 11 by 2; and
  after two errors and a rendering: zero.
\<close>

theorem Stats_average_witness:
  "0 <s Count (summary (record_all [success 7, failure 2, success 4]
                           (fresh\<lparr>summary := Summary_zero ''tcp'' 0\<rparr>)))
         - ErrCount (summary (record_all [success 7, failure 2, success 4]
                           (fresh\<lparr>summary := Summary_zero ''tcp'' 0\<rparr>)))
   \<and> (\<exists>st1. Summary_Stats sample_env (record_all [success 7, failure 2, success 4]
                           (fresh\<lparr>summary := Summary_zero ''tcp'' 0\<rparr>)) = Inr st1
         \<and> printed_avg (last (out st1)) = Some 5)
   \<and> filter is_success [Record (failure 2), Render, Record (failure 3)] = []
   \<and> (\<exists>st1. replay (Summary_Stats sample_env) ([Record (failure 2), Render, Record (failure 3)] @ [Render])
                 (fresh\<lparr>summary := Summary_zero ''tcp'' 0\<rparr>) = Inr st1
         \<and> printed_avg (last (out st1)) = Some 0)"
proof -
  let ?w = "record_all [success 7, failure 2, success 4] (fresh\<lparr>summary := Summary_zero ''tcp'' 0\<rparr>)"
  let ?h = "[Record (failure 2), Render, Record (failure 3)]"
  have p: "0 <s Count (summary ?w) - ErrCount (summary ?w)"
    unfolding sample_summary by (simp add: word_sless_alt)
  have q: "quo (SUM_s (summary ?w)) (Count (summary ?w) - ErrCount (summary ?w)) = Inr 5"
    unfolding sample_summary by (simp add: quo_def signed_divide_int_def)
  have f: "filter is_success ?h = []"
    by (simp add: failure_def)
  note t = Stats_average [where env = sample_env and st = ?w and h = ?h and n = "''tcp''" and t = 0]
  from t p q have a: "\<exists>st1. Summary_Stats sample_env ?w = Inr st1 \<and> printed_avg (last (out st1)) = Some 5"
    by auto
  note u = Stats_average [where env = sample_env and st = fresh and h = ?h and n = "''tcp''" and t = 0]
  from u f have b: "\<exists>st1. replay (Summary_Stats sample_env) (?h @ [Render])
                 (fresh\<lparr>summary := Summary_zero ''tcp'' 0\<rparr>) = Inr st1
         \<and> printed_avg (last (out st1)) = Some 0"
    by blast
  from p a f b show ?thesis by (intro conjI)
qed

text \<open>
  Claim C8. Rendering changes no field of the summary but \<open>AVG_s\<close>, which it sets from the
  other fields alone; a second rendering right after the first leaves the summary as it
  is and prints the same statistics (in main.go the line also carries the time elapsed,
  which is the clock's; in part_000 the two lines are equal).
\<close>

theorem Stats_frame:
  "(\<exists>st1 st2. Summary_Stats env st = Inr st1 \<and> Summary_Stats env st1 = Inr st2
      \<and> summary st1 = (summary st)\<lparr>AVG_s := AVG_s (summary st1)\<rparr>
      \<and> Count (summary st1) = Count (summary st) \<and> ErrCount (summary st1) = ErrCount (summary st)
      \<and> MIN_s (summary st1) = MIN_s (summary st) \<and> MAX_s (summary st1) = MAX_s (summary st)
      \<and> SUM_s (summary st1) = SUM_s (summary st)
      \<and> AVG_s (summary st1)
          = (if 0 <s Count (summary st) - ErrCount (summary st)
             then word_of_int (sint (SUM_s (summary st))
                                 sdiv sint (Count (summary st) - ErrCount (summary st)))
             else AVG_s (summary st))
      \<and> summary st2 = summary st1
      \<and> statistics (last (out st1))
          = Some (ToUpper env (NET (summary st)), MAX_s (summary st), MIN_s (summary st),
                  AVG_s (summary st1), Count (summary st), ErrCount (summary st))
      \<and> statistics (last (out st2)) = statistics (last (out st1)))
   \<and> (\<exists>st1 st2. Summary_Stats_000 env st = Inr st1 \<and> Summary_Stats_000 env st1 = Inr st2
      \<and> summary st1 = (summary st)\<lparr>AVG_s := AVG_s (summary st1)\<rparr>
      \<and> Count (summary st1) = Count (summary st) \<and> ErrCount (summary st1) = ErrCount (summary st)
      \<and> MIN_s (summary st1) = MIN_s (summary st) \<and> MAX_s (summary st1) = MAX_s (summary st)
      \<and> SUM_s (summary st1) = SUM_s (summary st)
      \<and> AVG_s (summary st1)
          = (if 0 <s Count (summary st) - ErrCount (summary st)
             then word_of_int (sint (SUM_s (summary st))
                                 sdiv sint (Count (summary st) - ErrCount (summary st)))
             else AVG_s (summary st))
      \<and> summary st2 = summary st1
      \<and> statistics (last (out st1))
          = Some (ToUpper env (NET (summary st)), MAX_s (summary st), MIN_s (summary st),
                  AVG_s (summary st1), Count (summary st), ErrCount (summary st))
      \<and> last (out st2) = last (out st1))"
proof -
  have a: "\<exists>st1 st2. Summary_Stats env st = Inr st1 \<and> Summary_Stats env st1 = Inr st2
      \<and> summary st1 = (summary st)\<lparr>AVG_s := AVG_s (summary st1)\<rparr>
      \<and> Count (summary st1) = Count (summary st) \<and> ErrCount (summary st1) = ErrCount (summary st)
      \<and> MIN_s (summary st1) = MIN_s (summary st) \<and> MAX_s (summary st1) = MAX_s (summary st)
      \<and> SUM_s (summary st1) = SUM_s (summary st)
      \<and> AVG_s (summary st1)
          = (if 0 <s Count (summary st) - ErrCount (summary st)
             then word_of_int (sint (SUM_s (summary st))
                                 sdiv sint (Count (summary st) - ErrCount (summary st)))
             else AVG_s (summary st))
      \<and> summary st2 = summary st1
      \<and> statistics (last (out st1))
          = Some (ToUpper env (NET (summary st)), MAX_s (summary st), MIN_s (summary st),
                  AVG_s (summary st1), Count (summary st), ErrCount (summary st))
      \<and> statistics (last (out st2)) = statistics (last (out st1))"
    by (cases "0 <s Count (summary st) - ErrCount (summary st)")
       (simp_all add: Summary_Stats_eq)
  have b: "\<exists>st1 st2. Summary_Stats_000 env st = Inr st1 \<and> Summary_Stats_000 env st1 = Inr st2
      \<and> summary st1 = (summary st)\<lparr>AVG_s := AVG_s (summary st1)\<rparr>
      \<and> Count (summary st1) = Count (summary st) \<and> ErrCount (summary st1) = ErrCount (summary st)
      \<and> MIN_s (summary st1) = MIN_s (summary st) \<and> MAX_s (summary st1) = MAX_s (summary st)
      \<and> SUM_s (summary st1) = SUM_s (summary st)
      \<and> AVG_s (summary st1)
          = (if 0 <s Count (summary st) - ErrCount (summary st)
             then word_of_int (sint (SUM_s (summary st))
                                 sdiv sint (Count (summary st) - ErrCount (summary st)))
             else AVG_s (summary st))
      \<and> summary st2 = summary st1
      \<and> statistics (last (out st1))
          = Some (ToUpper env (NET (summary st)), MAX_s (summary st), MIN_s (summary st),
                  AVG_s (summary st1), Count (summary st), ErrCount (summary st))
      \<and> last (out st2) = last (out st1)"
    by (cases "0 <s Count (summary st) - ErrCount (summary st)")
       (simp_all add: Summary_Stats_000_eq)
  from a b show ?thesis by (rule conjI)
qed

text \<open>
  The frame of claim C8 after the outcomes 7, an error, 4.
\<close>

theorem Stats_frame_witness:
  "(\<exists>st1 st2.
       Summary_Stats sample_env (record_all [success 7, failure 2, success 4]
                                   (fresh\<lparr>summary := Summary_zero ''tcp'' 0\<rparr>)) = Inr st1
     \<and> Summary_Stats sample_env st1 = Inr st2
     \<and> Count (summary st1) = 3 \<and> ErrCount (summary st1) = 1
     \<and> MIN_s (summary st1) = 4 \<and> MAX_s (summary st1) = 7 \<and> SUM_s (summary st1) = 11
     \<and> AVG_s (summary st1) = 5
     \<and> summary st2 = summary st1
     \<and> statistics (last (out st1)) = Some (''TCP'', 7, 4, 5, 3, 1)
     \<and> statistics (last (out st2)) = Some (''TCP'', 7, 4, 5, 3, 1))"
proof -
  let ?w = "record_all [success 7, failure 2, success 4] (fresh\<lparr>summary := Summary_zero ''tcp'' 0\<rparr>)"
  have u: "ToUpper sample_env ''tcp'' = ''TCP''"
    by (simp add: sample_env_def)
  from conjunct1 [OF Stats_frame [where env = sample_env and st = ?w]]
  obtain st1 st2 where
    "Summary_Stats sample_env ?w = Inr st1" "Summary_Stats sample_env st1 = Inr st2"
    "Count (summary st1) = Count (summary ?w)" "ErrCount (summary st1) = ErrCount (summary ?w)"
    "MIN_s (summary st1) = MIN_s (summary ?w)" "MAX_s (summary st1) = MAX_s (summary ?w)"
    "SUM_s (summary st1) = SUM_s (summary ?w)"
    "AVG_s (summary st1)
       = (if 0 <s Count (summary ?w) - ErrCount (summary ?w)
          then word_of_int (sint (SUM_s (summary ?w))
                              sdiv sint (Count (summary ?w) - ErrCount (summary ?w)))
          else AVG_s (summary ?w))"
    "summary st2 = summary st1"
    "statistics (last (out st1))
       = Some (ToUpper sample_env (NET (summary ?w)), MAX_s (summary ?w), MIN_s (summary ?w),
               AVG_s (summary st1), Count (summary ?w), ErrCount (summary ?w))"
    "statistics (last (out st2)) = statistics (last (out st1))"
    by blast
  then show ?thesis
    unfolding sample_summary by (simp add: u word_sless_alt signed_divide_int_def)
qed

section \<open>The resolver\<close>

lemma Resolver_cases:
  assumes "LookupHost env (make_resolver g env) (host (ping st)) = (a, err)"
  shows "(fst (Ping_Resolver g env st) \<noteq> None) = (err \<noteq> None \<or> a = [])"
    and "fst (Ping_Resolver g env st) = None \<Longrightarrow>
           addr (ping (snd (Ping_Resolver g env st)))
             = (if CHR '':'' \<in> set (hd a) then ''['' @ hd a @ '']'' else hd a)"
    and "fst (Ping_Resolver g env st) \<noteq> None \<Longrightarrow> ping (snd (Ping_Resolver g env st)) = ping st"
    and "fst (Ping_Resolver g env st) \<noteq> None \<Longrightarrow> out (snd (Ping_Resolver g env st)) = out st"
    and "summary (snd (Ping_Resolver g env st)) = summary st"
    and "dials (snd (Ping_Resolver g env st)) = dials st"
    and "wg (snd (Ping_Resolver g env st)) = wg st"
    and "pending (snd (Ping_Resolver g env st)) = pending st"
  using assms
  by (auto simp: Ping_Resolver_def Let_def split: option.splits list.splits)

lemma Resolver_000_cases:
  assumes "LookupHost env (make_resolver g env) (host (ping st)) = (a, err)"
  shows "(fst (Ping_Resolver_000 g env st) \<noteq> None) = (err \<noteq> None \<or> a = [])"
    and "fst (Ping_Resolver_000 g env st) = None \<Longrightarrow>
           addr (ping (snd (Ping_Resolver_000 g env st)))
             = (if CHR '':'' \<in> set (hd a) then ''['' @ hd a @ '']'' else hd a)"
    and "fst (Ping_Resolver_000 g env st) \<noteq> None \<Longrightarrow> snd (Ping_Resolver_000 g env st) = st"
    and "summary (snd (Ping_Resolver_000 g env st)) = summary st"
    and "out (snd (Ping_Resolver_000 g env st)) = out st"
    and "dials (snd (Ping_Resolver_000 g env st)) = dials st"
  using assms
  by (auto simp: Ping_Resolver_000_def Let_def split: option.splits list.splits)

lemma Resolver_001_cases:
  assumes "LookupHost env (make_resolver_001 g) (host (ping st)) = (a, err)"
  shows "(fst (Ping_Resolver_001 g env st) \<noteq> None) = (err \<noteq> None \<or> a = [])"
    and "fst (Ping_Resolver_001 g env st) = None \<Longrightarrow>
           addr (ping (snd (Ping_Resolver_001 g env st)))
             = (if CHR '':'' \<in> set (hd a) then ''['' @ hd a @ '']'' else hd a)"
    and "fst (Ping_Resolver_001 g env st) \<noteq> None \<Longrightarrow> snd (Ping_Resolver_001 g env st) = st"
  using assms
  by (auto simp: Ping_Resolver_001_def Let_def split: option.splits list.splits)

text \<open>
  Claim C7. In the three files, \<open>Resolver\<close> returns an error exactly when the lookup
  returns an error or no address; when it returns no error, the target's address is the
  first address of the lookup, in square brackets when it contains a colon and as it is
  otherwise.
\<close>

theorem Resolver_contract:
  "(fst (Ping_Resolver g env st) \<noteq> None)
      = (snd (LookupHost env (make_resolver g env) (host (ping st))) \<noteq> None
         \<or> fst (LookupHost env (make_resolver g env) (host (ping st))) = [])
   \<and> (fst (Ping_Resolver g env st) = None \<longrightarrow>
        addr (ping (snd (Ping_Resolver g env st)))
          = (let a0 = hd (fst (LookupHost env (make_resolver g env) (host (ping st))))
             in if CHR '':'' \<in> set a0 then ''['' @ a0 @ '']'' else a0))
   \<and> (fst (Ping_Resolver_000 g env st) \<noteq> None)
      = (snd (LookupHost env (make_resolver g env) (host (ping st))) \<noteq> None
         \<or> fst (LookupHost env (make_resolver g env) (host (ping st))) = [])
   \<and> (fst (Ping_Resolver_000 g env st) = None \<longrightarrow>
        addr (ping (snd (Ping_Resolver_000 g env st)))
          = (let a0 = hd (fst (LookupHost env (make_resolver g env) (host (ping st))))
             in if CHR '':'' \<in> set a0 then ''['' @ a0 @ '']'' else a0))
   \<and> (fst (Ping_Resolver_001 g env st) \<noteq> None)
      = (snd (LookupHost env (make_resolver_001 g) (host (ping st))) \<noteq> None
         \<or> fst (LookupHost env (make_resolver_001 g) (host (ping st))) = [])
   \<and> (fst (Ping_Resolver_001 g env st) = None \<longrightarrow>
        addr (ping (snd (Ping_Resolver_001 g env st)))
          = (let a0 = hd (fst (LookupHost env (make_resolver_001 g) (host (ping st))))
             in if CHR '':'' \<in> set a0 then ''['' @ a0 @ '']'' else a0))"
proof -
  obtain a err where l: "LookupHost env (make_resolver g env) (host (ping st)) = (a, err)"
    by (cases "LookupHost env (make_resolver g env) (host (ping st))")
  obtain a' err' where l': "LookupHost env (make_resolver_001 g) (host (ping st)) = (a', err')"
    by (cases "LookupHost env (make_resolver_001 g) (host (ping st))")
  show ?thesis
    unfolding Let_def l l' fst_conv snd_conv
    using Resolver_cases(1,2) [OF l] Resolver_000_cases(1,2) [OF l] Resolver_001_cases(1,2) [OF l']
    by blast
qed

text \<open>
  The contract of claim C7 on a host with an IPv6 address, one with two IPv4 addresses
  and one with no address.
\<close>

theorem Resolver_contract_witness:
  "fst (Ping_Resolver sample_globals sample_env (with_host ''v6.example.org'' fresh)) = None
   \<and> addr (ping (snd (Ping_Resolver sample_globals sample_env (with_host ''v6.example.org'' fresh))))
       = ''[2001:db8::1]''
   \<and> fst (Ping_Resolver_000 sample_globals sample_env (with_host ''example.org'' fresh)) = None
   \<and> addr (ping (snd (Ping_Resolver_000 sample_globals sample_env (with_host ''example.org'' fresh))))
       = ''192.0.2.1''
   \<and> fst (Ping_Resolver_001 sample_globals sample_env (with_host ''empty.example.org'' fresh)) \<noteq> None"
proof -
  have r: "make_resolver sample_globals sample_env = None" "make_resolver_001 sample_globals = None"
    by (simp_all add: make_resolver_def make_resolver_001_def sample_globals_def)
  have h: "host (ping (with_host x fresh)) = x" for x
    by (simp add: with_host_def)
  have l: "LookupHost sample_env None ''v6.example.org'' = ([''2001:db8::1''], None)"
    "LookupHost sample_env None ''example.org'' = ([''192.0.2.1'', ''192.0.2.2''], None)"
    "LookupHost sample_env None ''empty.example.org'' = ([], None)"
    by (simp_all add: sample_env_def)
  from Resolver_contract [of sample_globals sample_env "with_host ''v6.example.org'' fresh"]
  have a: "fst (Ping_Resolver sample_globals sample_env (with_host ''v6.example.org'' fresh)) = None
   \<and> addr (ping (snd (Ping_Resolver sample_globals sample_env (with_host ''v6.example.org'' fresh))))
       = ''[2001:db8::1]''"
    unfolding r h l by simp
  from Resolver_contract [of sample_globals sample_env "with_host ''example.org'' fresh"]
  have b: "fst (Ping_Resolver_000 sample_globals sample_env (with_host ''example.org'' fresh)) = None
   \<and> addr (ping (snd (Ping_Resolver_000 sample_globals sample_env (with_host ''example.org'' fresh))))
       = ''192.0.2.1''"
    unfolding r h l by simp
  from Resolver_contract [of sample_globals sample_env "with_host ''empty.example.org'' fresh"]
  have c: "fst (Ping_Resolver_001 sample_globals sample_env (with_host ''empty.example.org'' fresh)) \<noteq> None"
    unfolding r h l by simp
  from a b c show ?thesis by blast
qed

text \<open>
  Claim C10. In the three files, when \<open>Resolver\<close> returns an error the target is as it
  was before the call, its address included; the address is empty in the target that
  \<open>main\<close> builds.
\<close>

theorem Resolver_error_keeps_target:
  "(fst (Ping_Resolver g env st) \<noteq> None \<longrightarrow>
      ping (snd (Ping_Resolver g env st)) = ping st
      \<and> addr (ping (snd (Ping_Resolver g env st))) = addr (ping st))
   \<and> (fst (Ping_Resolver_000 g env st) \<noteq> None \<longrightarrow>
      ping (snd (Ping_Resolver_000 g env st)) = ping st
      \<and> addr (ping (snd (Ping_Resolver_000 g env st))) = addr (ping st))
   \<and> (fst (Ping_Resolver_001 g env st) \<noteq> None \<longrightarrow>
      ping (snd (Ping_Resolver_001 g env st)) = ping st
      \<and> addr (ping (snd (Ping_Resolver_001 g env st))) = addr (ping st))
   \<and> addr (ping (main_state g env)) = []
   \<and> addr (ping (main_state_000 g env)) = []"
proof -
  obtain a err where l: "LookupHost env (make_resolver g env) (host (ping st)) = (a, err)"
    by (cases "LookupHost env (make_resolver g env) (host (ping st))")
  obtain a' err' where l': "LookupHost env (make_resolver_001 g) (host (ping st)) = (a', err')"
    by (cases "LookupHost env (make_resolver_001 g) (host (ping st))")
  have "addr (ping (main_state g env)) = []" "addr (ping (main_state_000 g env)) = []"
    by (simp_all add: main_state_def main_state_000_def)
  then show ?thesis
    using Resolver_cases(3) [OF l] Resolver_000_cases(3) [OF l] Resolver_001_cases(3) [OF l']
    by simp
qed

text \<open>
  The frame of claim C10 on a host with no address and on an unknown host.
\<close>

theorem Resolver_error_keeps_target_witness:
  "fst (Ping_Resolver sample_globals sample_env (with_host ''empty.example.org'' fresh))
     = Some ''not found addr''
   \<and> addr (ping (snd (Ping_Resolver sample_globals sample_env (with_host ''empty.example.org'' fresh))))
     = []
   \<and> fst (Ping_Resolver_000 sample_globals sample_env (with_host ''unknown.example.org'' fresh))
     = Some ''no such host''
   \<and> addr (ping (snd (Ping_Resolver_000 sample_globals sample_env
                         (with_host ''unknown.example.org'' fresh)))) = []"
proof -
  have r: "make_resolver sample_globals sample_env = None"
    by (simp add: make_resolver_def sample_globals_def)
  have a: "fst (Ping_Resolver sample_globals sample_env (with_host ''empty.example.org'' fresh))
     = Some ''not found addr''"
    by (simp add: Ping_Resolver_def r with_host_def sample_env_def)
  have b: "fst (Ping_Resolver_000 sample_globals sample_env (with_host ''unknown.example.org'' fresh))
     = Some ''no such host''"
    by (simp add: Ping_Resolver_000_def r with_host_def sample_env_def)
  have e: "addr (ping (with_host x fresh)) = []" for x
    by (simp add: with_host_def fresh_def main_state_def)
  from Resolver_error_keeps_target [of sample_globals sample_env "with_host ''empty.example.org'' fresh"] a
  have a': "addr (ping (snd (Ping_Resolver sample_globals sample_env (with_host ''empty.example.org'' fresh))))
     = []" by (simp add: e)
  from Resolver_error_keeps_target [of sample_globals sample_env "with_host ''unknown.example.org'' fresh"] b
  have b': "addr (ping (snd (Ping_Resolver_000 sample_globals sample_env
                         (with_host ''unknown.example.org'' fresh)))) = []" by (simp add: e)
  from a a' b b' show ?thesis by blast
qed

section \<open>The prober\<close>

text \<open>
  Claim C9. In the three files, \<open>Ping\<close> on a target with an empty address returns an
  outcome with the error "invalid host" having read the clock and done nothing else: no
  dial, no event, no default applied to the target.
\<close>

theorem Ping_invalid_host:
  "addr (ping st) = [] \<Longrightarrow>
     Error (fst (Ping_Ping g env st)) = Some ''invalid host''
     \<and> snd (Ping_Ping g env st) = st\<lparr>clock := clock st + 1\<rparr>
     \<and> ping (snd (Ping_Ping g env st)) = ping st
     \<and> dials (snd (Ping_Ping g env st)) = dials st
     \<and> out (snd (Ping_Ping g env st)) = out st
     \<and> Error (fst (Ping_Ping_000 g env st)) = Some ''invalid host''
     \<and> snd (Ping_Ping_000 g env st) = st\<lparr>clock := clock st + 1\<rparr>
     \<and> ping (snd (Ping_Ping_000 g env st)) = ping st
     \<and> dials (snd (Ping_Ping_000 g env st)) = dials st
     \<and> out (snd (Ping_Ping_000 g env st)) = out st"
  by (simp add: Ping_Ping_def Ping_Ping_000_def Let_def)

text \<open>
  The early return of claim C9 on a target with no address, no port, no timeout and no
  network: none of the defaults is applied.
\<close>

theorem Ping_invalid_host_witness:
  "addr (ping (fresh\<lparr>ping := (ping fresh)\<lparr>net := [], port := 0, timeout := 0\<rparr>\<rparr>)) = []
   \<and> Error (fst (Ping_Ping sample_globals sample_env
                   (fresh\<lparr>ping := (ping fresh)\<lparr>net := [], port := 0, timeout := 0\<rparr>\<rparr>)))
       = Some ''invalid host''
   \<and> dials (snd (Ping_Ping sample_globals sample_env
                   (fresh\<lparr>ping := (ping fresh)\<lparr>net := [], port := 0, timeout := 0\<rparr>\<rparr>))) = 0
   \<and> out (snd (Ping_Ping sample_globals sample_env
                   (fresh\<lparr>ping := (ping fresh)\<lparr>net := [], port := 0, timeout := 0\<rparr>\<rparr>))) = []
   \<and> port (ping (snd (Ping_Ping sample_globals sample_env
                   (fresh\<lparr>ping := (ping fresh)\<lparr>net := [], port := 0, timeout := 0\<rparr>\<rparr>)))) = 0
   \<and> net (ping (snd (Ping_Ping sample_globals sample_env
                   (fresh\<lparr>ping := (ping fresh)\<lparr>net := [], port := 0, timeout := 0\<rparr>\<rparr>)))) = []
   \<and> Error (fst (Ping_Ping_000 sample_globals sample_env
                   (fresh\<lparr>ping := (ping fresh)\<lparr>net := [], port := 0, timeout := 0\<rparr>\<rparr>)))
       = Some ''invalid host''
   \<and> dials (snd (Ping_Ping_000 sample_globals sample_env
                   (fresh\<lparr>ping := (ping fresh)\<lparr>net := [], port := 0, timeout := 0\<rparr>\<rparr>))) = 0
   \<and> timeout (ping (snd (Ping_Ping_000 sample_globals sample_env
                   (fresh\<lparr>ping := (ping fresh)\<lparr>net := [], port := 0, timeout := 0\<rparr>\<rparr>)))) = 0
   \<and> dialer (ping (snd (Ping_Ping_000 sample_globals sample_env
                   (fresh\<lparr>ping := (ping fresh)\<lparr>net := [], port := 0, timeout := 0\<rparr>\<rparr>)))) = None"
proof -
  let ?st = "fresh\<lparr>ping := (ping fresh)\<lparr>net := [], port := 0, timeout := 0\<rparr>\<rparr>"
  have a: "addr (ping ?st) = []"
    by (simp add: fresh_def main_state_def)
  have f: "dials ?st = 0" "out ?st = []" "port (ping ?st) = 0" "net (ping ?st) = []"
    "timeout (ping ?st) = 0" "dialer (ping ?st) = None"
    by (simp_all add: fresh_def main_state_def)
  from Ping_invalid_host [OF a, of sample_globals sample_env] a f show ?thesis
    by simp
qed

section \<open>The loop\<close>

lemma dial_and_measure_frame:
  "filter is_probe_line (out (snd (dial_and_measure env stats st))) = filter is_probe_line (out st)"
  "filter is_summary_line (out (snd (dial_and_measure env stats st))) = filter is_summary_line (out st)"
  "summary (snd (dial_and_measure env stats st)) = summary st"
  "wg (snd (dial_and_measure env stats st)) = wg st"
  "pending (snd (dial_and_measure env stats st)) = pending st"
  by (simp_all add: dial_and_measure_def Let_def split: dialed.split)

lemma Ping_Ping_frame:
  "filter is_probe_line (out (snd (Ping_Ping g env st))) = filter is_probe_line (out st)"
  "filter is_summary_line (out (snd (Ping_Ping g env st))) = filter is_summary_line (out st)"
  "summary (snd (Ping_Ping g env st)) = summary st"
  "wg (snd (Ping_Ping g env st)) = wg st"
  "pending (snd (Ping_Ping g env st)) = pending st"
  by (simp_all add: Ping_Ping_def Let_def dial_and_measure_frame)

lemma Ping_Ping_000_frame:
  "filter is_probe_line (out (snd (Ping_Ping_000 g env st))) = filter is_probe_line (out st)"
  "filter is_summary_line (out (snd (Ping_Ping_000 g env st))) = filter is_summary_line (out st)"
  "summary (snd (Ping_Ping_000 g env st)) = summary st"
  by (simp_all add: Ping_Ping_000_def Let_def dial_and_measure_frame)

lemma attempts_update:
  "attempts (st\<lparr>wg := w\<rparr>) = attempts st"
  "attempts (st\<lparr>pending := n\<rparr>) = attempts st"
  "attempts (st\<lparr>spawned := n\<rparr>) = attempts st"
  "attempts (st\<lparr>clock := n\<rparr>) = attempts st"
  "attempts (st\<lparr>summary := s\<rparr>) = attempts st"
  "attempts (st\<lparr>ping := p\<rparr>) = attempts st"
  by (simp_all add: attempts_def)

lemma rendered_update:
  "rendered (st\<lparr>wg := w\<rparr>) = rendered st"
  "rendered (st\<lparr>pending := n\<rparr>) = rendered st"
  "rendered (st\<lparr>spawned := n\<rparr>) = rendered st"
  "rendered (st\<lparr>clock := n\<rparr>) = rendered st"
  "rendered (st\<lparr>summary := s\<rparr>) = rendered st"
  "rendered (st\<lparr>ping := p\<rparr>) = rendered st"
  by (simp_all add: rendered_def)

lemma record_outcome_counts:
  "attempts (record_outcome x st) = attempts st + 1"
  "rendered (record_outcome x st) = rendered st"
  "wg (record_outcome x st) = wg st"
  "pending (record_outcome x st) = pending st"
  by (simp_all add: record_outcome_def attempts_def rendered_def Let_def split: option.split)

lemma Summary_Result_counts:
  "attempts (Summary_Result g env st) = attempts st + 1"
  "rendered (Summary_Result g env st) = rendered st"
  "wg (Summary_Result g env st) = wg st - 1"
  "pending (Summary_Result g env st) = pending st"
  "Count (summary (Summary_Result g env st)) = Count (summary st) + 1"
proof -
  obtain stats st1 where p: "Ping_Ping g env st = (stats, st1)"
    by (cases "Ping_Ping g env st")
  from Ping_Ping_frame [of g env st] p
  have f: "attempts st1 = attempts st" "rendered st1 = rendered st" "wg st1 = wg st"
    "pending st1 = pending st" "summary st1 = summary st"
    by (simp_all add: attempts_def rendered_def)
  show "attempts (Summary_Result g env st) = attempts st + 1"
    "rendered (Summary_Result g env st) = rendered st"
    "wg (Summary_Result g env st) = wg st - 1"
    "pending (Summary_Result g env st) = pending st"
    "Count (summary (Summary_Result g env st)) = Count (summary st) + 1"
    using f
    by (simp_all add: Summary_Result_def p Let_def record_outcome_counts attempts_update
          rendered_update Count_record_outcome)
qed

lemma Do_body_000_counts:
  "attempts (Do_body_000 g env st) = attempts st + 1"
  "rendered (Do_body_000 g env st) = rendered st"
  "Count (summary (Do_body_000 g env st)) = Count (summary st) + 1"
proof -
  obtain stats st1 where p: "Ping_Ping_000 g env st = (stats, st1)"
    by (cases "Ping_Ping_000 g env st")
  from Ping_Ping_000_frame [of g env st] p
  have f: "attempts st1 = attempts st" "rendered st1 = rendered st" "summary st1 = summary st"
    by (simp_all add: attempts_def rendered_def)
  show "attempts (Do_body_000 g env st) = attempts st + 1"
    "rendered (Do_body_000 g env st) = rendered st"
    "Count (summary (Do_body_000 g env st)) = Count (summary st) + 1"
    using f by (simp_all add: Do_body_000_def p record_outcome_counts Count_record_outcome)
qed

lemma run_goroutines_counts:
  "n \<le> pending st \<Longrightarrow>
     attempts (run_goroutines g env n st) = attempts st + n
     \<and> rendered (run_goroutines g env n st) = rendered st
     \<and> wg (run_goroutines g env n st) = wg st - int n
     \<and> pending (run_goroutines g env n st) = pending st - n
     \<and> Count (summary (run_goroutines g env n st)) = Count (summary st) + of_nat n"
proof (induction n arbitrary: st)
  case 0
  then show ?case by simp
next
  case (Suc n)
  let ?st = "(Summary_Result g env st)\<lparr>pending := pending st - 1\<rparr>"
  have "n \<le> pending ?st" using Suc.prems by simp
  from Suc.IH [OF this] Suc.prems show ?case
    by (simp add: Summary_Result_counts attempts_update rendered_update)
qed

lemma go_Result_counts:
  "attempts (go_Result g env st) + pending (go_Result g env st) = attempts st + pending st + 1
   \<and> rendered (go_Result g env st) = rendered st
   \<and> wg (go_Result g env st) - int (pending (go_Result g env st)) = wg st - int (pending st) - 1
   \<and> Count (summary (go_Result g env st)) + of_nat (pending (go_Result g env st))
       = Count (summary st) + of_nat (pending st) + 1"
proof -
  let ?st1 = "st\<lparr>pending := pending st + 1, spawned := spawned st + 1\<rparr>"
  let ?m = "min (sched env (spawned st)) (pending ?st1)"
  have m: "?m \<le> pending ?st1" by simp
  have "?m \<le> pending st + 1" by simp
  then have w: "(of_nat (pending st + 1 - ?m) :: int64) + of_nat ?m = of_nat (pending st) + 1"
    by (metis (no_types, lifting) le_add_diff_inverse2 of_nat_1 of_nat_add)
  from run_goroutines_counts [OF m, of g env] w show ?thesis
    by (simp add: go_Result_def Let_def attempts_update rendered_update add.assoc)
qed

lemma Do_body_counts:
  "attempts (Do_body g env st) + pending (Do_body g env st) = attempts st + pending st + 1
   \<and> rendered (Do_body g env st) = rendered st
   \<and> wg (Do_body g env st) - int (pending (Do_body g env st)) = wg st - int (pending st)
   \<and> Count (summary (Do_body g env st)) + of_nat (pending (Do_body g env st))
       = Count (summary st) + of_nat (pending st) + 1"
proof (cases "0 <s DefaultInterval g")
  case True
  then show ?thesis
    by (simp add: Do_body_def Let_def Summary_Result_counts attempts_update rendered_update)
next
  case False
  with go_Result_counts [of g env "st\<lparr>wg := wg st + 1\<rparr>"] show ?thesis
    by (simp add: Do_body_def Let_def attempts_update rendered_update)
qed

lemma Do_body_funpow_counts:
  "attempts ((Do_body g env ^^ k) st) + pending ((Do_body g env ^^ k) st)
      = attempts st + pending st + k
   \<and> rendered ((Do_body g env ^^ k) st) = rendered st
   \<and> wg ((Do_body g env ^^ k) st) - int (pending ((Do_body g env ^^ k) st))
      = wg st - int (pending st)
   \<and> Count (summary ((Do_body g env ^^ k) st)) + of_nat (pending ((Do_body g env ^^ k) st))
       = Count (summary st) + of_nat (pending st) + of_nat k"
proof (induction k)
  case 0
  then show ?case by simp
next
  case (Suc k)
  from Do_body_counts [of g env "(Do_body g env ^^ k) st"] Suc show ?case
    by simp
qed

lemma Do_body_000_funpow_counts:
  "attempts ((Do_body_000 g env ^^ k) st) = attempts st + k
   \<and> rendered ((Do_body_000 g env ^^ k) st) = rendered st
   \<and> Count (summary ((Do_body_000 g env ^^ k) st)) = Count (summary st) + of_nat k"
  by (induction k) (simp_all add: Do_body_000_counts)

lemma WG_Wait_counts:
  assumes "wg st = int (pending st)"
  shows "\<exists>st1. WG_Wait g env st = Some st1
           \<and> attempts st1 = attempts st + pending st
           \<and> rendered st1 = rendered st
           \<and> pending st1 = 0 \<and> wg st1 = 0
           \<and> Count (summary st1) = Count (summary st) + of_nat (pending st)"
  using run_goroutines_counts [of "pending st" st g env] assms
  by (simp add: WG_Wait_def Let_def)

lemma Summary_Stats_counts:
  "\<exists>st1. Summary_Stats env st = Inr st1
     \<and> attempts st1 = attempts st \<and> rendered st1 = rendered st + 1
     \<and> is_summary_line (last (out st1))
     \<and> pending st1 = pending st \<and> wg st1 = wg st
     \<and> Count (summary st1) = Count (summary st)"
  by (simp add: Summary_Stats_eq attempts_def rendered_def)

lemma Summary_Stats_000_counts:
  "\<exists>st1. Summary_Stats_000 env st = Inr st1
     \<and> attempts st1 = attempts st \<and> rendered st1 = rendered st + 1
     \<and> is_summary_line (last (out st1))
     \<and> Count (summary st1) = Count (summary st)"
  by (simp add: Summary_Stats_000_eq attempts_def rendered_def)

lemma sint_succ:
  assumes "sint (i :: int64) < sint (c :: int64)"
  shows "sint (i + 1) = sint i + 1"
proof -
  have "sint c < 2 ^ 63" using sint_lt [of c] by simp
  then have u: "sint i + 1 < 2 ^ 63" using assms by linarith
  have "- (2 ^ 63) \<le> sint i" using sint_ge [of i] by simp
  then have l: "- (2 ^ 63) \<le> sint i + 1" by linarith
  have "sint (i + 1) = signed_take_bit 63 (sint i + sint (1 :: int64))"
    using sint_word_add [of i 1] by simp
  also have "\<dots> = signed_take_bit 63 (sint i + 1)" by simp
  also have "\<dots> = sint i + 1" using l u by (rule signed_take_bit_int_eq_self)
  finally show ?thesis .
qed

lemma Do_loop_unroll:
  assumes c: "0 <s DefaultCount g"
  shows "0 \<le> sint i \<Longrightarrow> sint i < sint (DefaultCount g) \<Longrightarrow>
         k = nat (sint (DefaultCount g) - sint i) \<Longrightarrow>
         Do_loop g env i st = Some ((Do_body g env ^^ k) st)"
proof (induction k arbitrary: i st)
  case 0
  then show ?case by simp
next
  case (Suc k)
  have c0: "0 \<le>s DefaultCount g" using c by (simp add: word_sle_eq word_sless_alt)
  have s: "sint (i + 1) = sint i + 1" using Suc.prems(2) by (rule sint_succ)
  show ?case
  proof (cases "DefaultCount g \<le>s i + 1")
    case True
    then have "sint (DefaultCount g) = sint i + 1"
      using Suc.prems(2) s by (simp add: word_sle_eq)
    with Suc.prems(3) have "k = 0" by simp
    with True c0 show ?thesis
      by (subst Do_loop.simps) (simp add: Let_def)
  next
    case False
    then have lt: "sint (i + 1) < sint (DefaultCount g)" by (simp add: word_sle_eq)
    have nn: "0 \<le> sint (i + 1)" using Suc.prems(1) s by simp
    have k: "k = nat (sint (DefaultCount g) - sint (i + 1))" using Suc.prems(3) s by simp
    from Suc.IH [OF nn lt k]
    have "Do_loop g env (i + 1) (Do_body g env st) = Some ((Do_body g env ^^ k) (Do_body g env st))" .
    with False c0 show ?thesis
      by (subst Do_loop.simps) (simp add: Let_def funpow_swap1)
  qed
qed

lemma Do_loop_000_unroll:
  assumes c: "0 <s DefaultCount g"
  shows "0 \<le> sint i \<Longrightarrow> sint i < sint (DefaultCount g) \<Longrightarrow>
         k = nat (sint (DefaultCount g) - sint i) \<Longrightarrow>
         Do_loop_000 g env i st = Some ((Do_body_000 g env ^^ k) st)"
proof (induction k arbitrary: i st)
  case 0
  then show ?case by simp
next
  case (Suc k)
  have s: "sint (i + 1) = sint i + 1" using Suc.prems(2) by (rule sint_succ)
  show ?case
  proof (cases "DefaultCount g \<le>s i + 1")
    case True
    then have "sint (DefaultCount g) = sint i + 1"
      using Suc.prems(2) s by (simp add: word_sle_eq)
    with Suc.prems(3) have "k = 0" by simp
    with True c show ?thesis
      by (subst Do_loop_000.simps) (simp add: Let_def)
  next
    case False
    then have lt: "sint (i + 1) < sint (DefaultCount g)" by (simp add: word_sle_eq)
    have nn: "0 \<le> sint (i + 1)" using Suc.prems(1) s by simp
    have k: "k = nat (sint (DefaultCount g) - sint (i + 1))" using Suc.prems(3) s by simp
    from Suc.IH [OF nn lt k]
    have "Do_loop_000 g env (i + 1) (Do_body_000 g env st)
            = Some ((Do_body_000 g env ^^ k) (Do_body_000 g env st))" .
    with False c show ?thesis
      by (subst Do_loop_000.simps) (simp add: Let_def funpow_swap1)
  qed
qed

lemma Do_loop_000_unbounded:
  assumes "\<not> 0 <s DefaultCount g"
  shows "Do_loop_000 g env i st = None"
proof (rule ccontr)
  assume "Do_loop_000 g env i st \<noteq> None"
  then obtain y where y: "Do_loop_000 g env i st = Some y" by blast
  have "0 <s DefaultCount g"
    by (rule Do_loop_000.raw_induct [where P = "\<lambda>g env i st y. 0 <s DefaultCount g", OF _ y])
       (auto simp: Let_def split: if_splits)
  with assms show False by simp
qed

lemma Do_loop_unbounded:
  assumes "\<not> 0 \<le>s DefaultCount g"
  shows "Do_loop g env i st = None"
proof (rule ccontr)
  assume "Do_loop g env i st \<noteq> None"
  then obtain y where y: "Do_loop g env i st = Some y" by blast
  have "0 \<le>s DefaultCount g"
    by (rule Do_loop.raw_induct [where P = "\<lambda>g env i st y. 0 \<le>s DefaultCount g", OF _ y])
       (auto simp: Let_def split: if_splits)
  with assms show False by simp
qed

lemma Ping_Resolver_frame:
  "attempts (snd (Ping_Resolver g env st)) = attempts st"
  "rendered (snd (Ping_Resolver g env st)) = rendered st"
  "wg (snd (Ping_Resolver g env st)) = wg st"
  "pending (snd (Ping_Resolver g env st)) = pending st"
  "summary (snd (Ping_Resolver g env st)) = summary st"
  "dials (snd (Ping_Resolver g env st)) = dials st"
  "fst (Ping_Resolver g env st) \<noteq> None \<Longrightarrow> out (snd (Ping_Resolver g env st)) = out st"
  by (auto simp: Ping_Resolver_def Let_def attempts_def rendered_def
        split: option.splits list.splits prod.splits)

lemma Ping_Resolver_000_frame:
  "attempts (snd (Ping_Resolver_000 g env st)) = attempts st"
  "rendered (snd (Ping_Resolver_000 g env st)) = rendered st"
  "summary (snd (Ping_Resolver_000 g env st)) = summary st"
  "dials (snd (Ping_Resolver_000 g env st)) = dials st"
  "out (snd (Ping_Resolver_000 g env st)) = out st"
  by (auto simp: Ping_Resolver_000_def Let_def attempts_def rendered_def
        split: option.splits list.splits prod.splits)

lemma of_nat_nat_sint: "0 \<le> sint (c :: int64) \<Longrightarrow> of_nat (nat (sint c)) = c"
  by (simp add: of_nat_nat)

lemma Ping_Do_terminates:
  assumes c: "0 <s DefaultCount g" and r: "fst (Ping_Resolver g env st) = None"
    and b: "wg st = int (pending st)"
  shows "\<exists>st1. Ping_Do g env st = Some (Inr st1)
           \<and> attempts st1 = attempts st + pending st + nat (sint (DefaultCount g))
           \<and> rendered st1 = rendered st + 1
           \<and> is_summary_line (last (out st1))
           \<and> pending st1 = 0 \<and> wg st1 = 0
           \<and> Count (summary st1) = Count (summary st) + of_nat (pending st) + DefaultCount g"
proof -
  let ?k = "nat (sint (DefaultCount g))"
  obtain st0 where r0: "Ping_Resolver g env st = (None, st0)"
    using r by (cases "Ping_Resolver g env st") simp
  from Ping_Resolver_frame [where g = g and env = env and st = st] r0
  have f0: "attempts st0 = attempts st" "rendered st0 = rendered st" "wg st0 = wg st"
    "pending st0 = pending st" "summary st0 = summary st"
    by simp_all
  have pos: "0 < sint (DefaultCount g)" using c by (simp add: word_sless_alt)
  let ?st2 = "(Do_body g env ^^ ?k) st0"
  have l: "Do_loop g env 0 st0 = Some ?st2"
    using pos by (intro Do_loop_unroll [OF c]) simp_all
  note f2 = Do_body_funpow_counts [where g = g and env = env and k = ?k and st = st0]
  from f2 f0 b have b2: "wg ?st2 = int (pending ?st2)" by simp
  from WG_Wait_counts [OF b2, where g = g and env = env] obtain st3 where
    w: "WG_Wait g env ?st2 = Some st3" and
    f3: "attempts st3 = attempts ?st2 + pending ?st2" "rendered st3 = rendered ?st2"
      "pending st3 = 0" "wg st3 = 0"
      "Count (summary st3) = Count (summary ?st2) + of_nat (pending ?st2)"
    by blast
  from Summary_Stats_counts [where env = env and st = st3] obtain st4 where
    s: "Summary_Stats env st3 = Inr st4" and
    f4: "attempts st4 = attempts st3" "rendered st4 = rendered st3 + 1"
      "is_summary_line (last (out st4))" "pending st4 = pending st3" "wg st4 = wg st3"
      "Count (summary st4) = Count (summary st3)"
    by blast
  have d: "Ping_Do g env st = Some (Inr st4)"
    by (simp add: Ping_Do_def r0 l w s)
  have k: "(of_nat ?k :: int64) = DefaultCount g"
    using pos by (intro of_nat_nat_sint) simp
  from f2 f3 f4 f0 k have
    "attempts st4 = attempts st + pending st + ?k" "rendered st4 = rendered st + 1"
    "pending st4 = 0" "wg st4 = 0"
    "Count (summary st4) = Count (summary st) + of_nat (pending st) + DefaultCount g"
    by simp_all
  with d f4(3) show ?thesis by blast
qed

lemma Ping_Do_000_terminates:
  assumes c: "0 <s DefaultCount g" and r: "fst (Ping_Resolver_000 g env st) = None"
  shows "\<exists>st1. Ping_Do_000 g env st = Some (Inr st1)
           \<and> attempts st1 = attempts st + nat (sint (DefaultCount g))
           \<and> rendered st1 = rendered st + 1
           \<and> is_summary_line (last (out st1))
           \<and> Count (summary st1) = Count (summary st) + DefaultCount g"
proof -
  let ?k = "nat (sint (DefaultCount g))"
  obtain st0 where r0: "Ping_Resolver_000 g env st = (None, st0)"
    using r by (cases "Ping_Resolver_000 g env st") simp
  from Ping_Resolver_000_frame [where g = g and env = env and st = st] r0
  have f0: "attempts st0 = attempts st" "rendered st0 = rendered st" "summary st0 = summary st"
    by simp_all
  have pos: "0 < sint (DefaultCount g)" using c by (simp add: word_sless_alt)
  let ?st2 = "(Do_body_000 g env ^^ ?k) st0"
  have l: "Do_loop_000 g env 0 st0 = Some ?st2"
    using pos by (intro Do_loop_000_unroll [OF c]) simp_all
  note f2 = Do_body_000_funpow_counts [where g = g and env = env and k = ?k and st = st0]
  from Summary_Stats_000_counts [where env = env and st = ?st2] obtain st4 where
    s: "Summary_Stats_000 env ?st2 = Inr st4" and
    f4: "attempts st4 = attempts ?st2" "rendered st4 = rendered ?st2 + 1"
      "is_summary_line (last (out st4))" "Count (summary st4) = Count (summary ?st2)"
    by blast
  have d: "Ping_Do_000 g env st = Some (Inr st4)"
    by (simp add: Ping_Do_000_def r0 l s)
  have k: "(of_nat ?k :: int64) = DefaultCount g"
    using pos by (intro of_nat_nat_sint) simp
  from f2 f4 f0 k have
    "attempts st4 = attempts st + ?k" "rendered st4 = rendered st + 1"
    "Count (summary st4) = Count (summary st) + DefaultCount g"
    by simp_all
  with d f4(3) show ?thesis by blast
qed

lemma Ping_Do_000_unbounded:
  assumes "\<not> 0 <s DefaultCount g" "fst (Ping_Resolver_000 g env st) = None"
  shows "Ping_Do_000 g env st = None"
proof -
  obtain st0 where r0: "Ping_Resolver_000 g env st = (None, st0)"
    using assms(2) by (cases "Ping_Resolver_000 g env st") simp
  show ?thesis
    by (simp add: Ping_Do_000_def r0 Do_loop_000_unbounded [OF assms(1)])
qed

lemma main_state_counts:
  "attempts (main_state g env) = 0" "rendered (main_state g env) = 0"
  "pending (main_state g env) = 0" "wg (main_state g env) = 0"
  "Count (summary (main_state g env)) = 0"
  "attempts (main_state_000 g env) = 0" "rendered (main_state_000 g env) = 0"
  "Count (summary (main_state_000 g env)) = 0"
  by (simp_all add: main_state_def main_state_000_def attempts_def rendered_def Summary_zero_def)

text \<open>
  Claim C3. With a positive attempt count and a resolution that succeeds, \<open>main\<close> of
  main.go returns, whatever the interval and however the goroutines are scheduled: it
  has completed exactly that many attempts, rendered exactly one summary, the last thing
  it did, with no goroutine outstanding, and the summary counts every attempt. So does
  \<open>main\<close> of part_000. With a count of zero or less, \<open>main\<close> of part_000 never returns.
\<close>

theorem attempt_budget:
  "(0 <s DefaultCount g \<and> fst (Ping_Resolver g env (main_state g env)) = None \<longrightarrow>
      (\<exists>st1. main g env = Some (Inr st1)
         \<and> attempts st1 = nat (sint (DefaultCount g))
         \<and> rendered st1 = 1
         \<and> is_summary_line (last (out st1))
         \<and> pending st1 = 0 \<and> wg st1 = 0
         \<and> Count (summary st1) = DefaultCount g))
   \<and> (0 <s DefaultCount g \<and> fst (Ping_Resolver_000 g env (main_state_000 g env)) = None \<longrightarrow>
      (\<exists>st1. main_000 g env = Some (Inr st1)
         \<and> attempts st1 = nat (sint (DefaultCount g))
         \<and> rendered st1 = 1
         \<and> is_summary_line (last (out st1))
         \<and> Count (summary st1) = DefaultCount g))
   \<and> (\<not> 0 <s DefaultCount g \<and> fst (Ping_Resolver_000 g env (main_state_000 g env)) = None \<longrightarrow>
      main_000 g env = None)"
proof (intro conjI impI)
  assume a: "0 <s DefaultCount g \<and> fst (Ping_Resolver g env (main_state g env)) = None"
  have b: "wg (main_state g env) = int (pending (main_state g env))"
    by (simp add: main_state_counts)
  from Ping_Do_terminates [OF conjunct1 [OF a] conjunct2 [OF a] b]
  show "\<exists>st1. main g env = Some (Inr st1)
         \<and> attempts st1 = nat (sint (DefaultCount g))
         \<and> rendered st1 = 1
         \<and> is_summary_line (last (out st1))
         \<and> pending st1 = 0 \<and> wg st1 = 0
         \<and> Count (summary st1) = DefaultCount g"
    by (simp add: main_def main_state_counts)
next
  assume a: "0 <s DefaultCount g \<and> fst (Ping_Resolver_000 g env (main_state_000 g env)) = None"
  from Ping_Do_000_terminates [OF conjunct1 [OF a] conjunct2 [OF a]]
  show "\<exists>st1. main_000 g env = Some (Inr st1)
         \<and> attempts st1 = nat (sint (DefaultCount g))
         \<and> rendered st1 = 1
         \<and> is_summary_line (last (out st1))
         \<and> Count (summary st1) = DefaultCount g"
    by (simp add: main_000_def main_state_counts)
next
  assume a: "\<not> 0 <s DefaultCount g \<and> fst (Ping_Resolver_000 g env (main_state_000 g env)) = None"
  from Ping_Do_000_unbounded [OF conjunct1 [OF a] conjunct2 [OF a]]
  show "main_000 g env = None"
    by (simp add: main_000_def)
qed

lemma sample_resolves:
  "fst (Ping_Resolver (sample_globals\<lparr>DefaultInterval := v, DefaultCount := c\<rparr>) sample_env
          (main_state (sample_globals\<lparr>DefaultInterval := v, DefaultCount := c\<rparr>) sample_env)) = None"
  "fst (Ping_Resolver_000 (sample_globals\<lparr>DefaultInterval := v, DefaultCount := c\<rparr>) sample_env
          (main_state_000 (sample_globals\<lparr>DefaultInterval := v, DefaultCount := c\<rparr>) sample_env)) = None"
  by (simp_all add: Ping_Resolver_def Ping_Resolver_000_def make_resolver_def sample_globals_def
        sample_env_def main_state_def main_state_000_def)

text \<open>
  The budget of claim C3: three attempts with an interval, five without (concurrent),
  three in part_000, and a count of zero in part_000.
\<close>

theorem attempt_budget_witness:
  "0 <s DefaultCount (sample_globals\<lparr>DefaultInterval := 1, DefaultCount := 3\<rparr>)
   \<and> fst (Ping_Resolver (sample_globals\<lparr>DefaultInterval := 1, DefaultCount := 3\<rparr>) sample_env
           (main_state (sample_globals\<lparr>DefaultInterval := 1, DefaultCount := 3\<rparr>) sample_env)) = None
   \<and> (\<exists>st1. main (sample_globals\<lparr>DefaultInterval := 1, DefaultCount := 3\<rparr>) sample_env = Some (Inr st1)
         \<and> attempts st1 = 3 \<and> rendered st1 = 1 \<and> is_summary_line (last (out st1))
         \<and> pending st1 = 0 \<and> Count (summary st1) = 3)
   \<and> (\<exists>st1. main (sample_globals\<lparr>DefaultInterval := 0, DefaultCount := 5\<rparr>) sample_env = Some (Inr st1)
         \<and> attempts st1 = 5 \<and> rendered st1 = 1 \<and> is_summary_line (last (out st1))
         \<and> pending st1 = 0 \<and> Count (summary st1) = 5)
   \<and> (\<exists>st1. main_000 (sample_globals\<lparr>DefaultInterval := 1, DefaultCount := 3\<rparr>) sample_env = Some (Inr st1)
         \<and> attempts st1 = 3 \<and> rendered st1 = 1 \<and> is_summary_line (last (out st1)))
   \<and> \<not> 0 <s DefaultCount (sample_globals\<lparr>DefaultInterval := 1, DefaultCount := 0\<rparr>)
   \<and> main_000 (sample_globals\<lparr>DefaultInterval := 1, DefaultCount := 0\<rparr>) sample_env = None"
proof -
  let ?g3 = "sample_globals\<lparr>DefaultInterval := 1, DefaultCount := 3\<rparr>"
  let ?g5 = "sample_globals\<lparr>DefaultInterval := 0, DefaultCount := 5\<rparr>"
  let ?g0 = "sample_globals\<lparr>DefaultInterval := 1, DefaultCount := 0\<rparr>"
  have c3: "0 <s DefaultCount ?g3" by (simp add: word_sless_alt)
  have c5: "0 <s DefaultCount ?g5" by (simp add: word_sless_alt)
  have c0: "\<not> 0 <s DefaultCount ?g0" by (simp add: word_sless_alt)
  from attempt_budget [of ?g3 sample_env] c3 sample_resolves [where v = 1 and c = 3]
  have a: "\<exists>st1. main ?g3 sample_env = Some (Inr st1)
         \<and> attempts st1 = 3 \<and> rendered st1 = 1 \<and> is_summary_line (last (out st1))
         \<and> pending st1 = 0 \<and> Count (summary st1) = 3"
    by auto
  from attempt_budget [of ?g5 sample_env] c5 sample_resolves [where v = 0 and c = 5]
  have b: "\<exists>st1. main ?g5 sample_env = Some (Inr st1)
         \<and> attempts st1 = 5 \<and> rendered st1 = 1 \<and> is_summary_line (last (out st1))
         \<and> pending st1 = 0 \<and> Count (summary st1) = 5"
    by auto
  from attempt_budget [of ?g3 sample_env] c3 sample_resolves [where v = 1 and c = 3]
  have c: "\<exists>st1. main_000 ?g3 sample_env = Some (Inr st1)
         \<and> attempts st1 = 3 \<and> rendered st1 = 1 \<and> is_summary_line (last (out st1))"
    by auto
  from attempt_budget [of ?g0 sample_env] c0 sample_resolves [where v = 1 and c = 0]
  have e: "main_000 ?g0 sample_env = None" by simp
  from c3 sample_resolves(1) [where v = 1 and c = 3] a b c c0 e show ?thesis by (intro conjI)
qed

text \<open>
  The boundary of the budget in main.go, where the test is \<^verbatim>\<open>DefaultCount >= 0\<close>: a count
  of zero makes one attempt and one summary, and only a negative count never returns.
\<close>

lemma Do_loop_count_zero:
  assumes "DefaultCount g = 0"
  shows "Do_loop g env 0 st = Some (Do_body g env st)"
  using assms by (subst Do_loop.simps) (simp add: Let_def word_sle_eq)

lemma main_count_zero:
  assumes c: "DefaultCount g = 0" and r: "fst (Ping_Resolver g env (main_state g env)) = None"
  shows "\<exists>st1. main g env = Some (Inr st1) \<and> attempts st1 = 1 \<and> rendered st1 = 1
           \<and> is_summary_line (last (out st1)) \<and> pending st1 = 0"
proof -
  let ?st = "main_state g env"
  obtain st0 where r0: "Ping_Resolver g env ?st = (None, st0)"
    using r by (cases "Ping_Resolver g env ?st") simp
  from Ping_Resolver_frame [where g = g and env = env and st = ?st] r0
  have f0: "attempts st0 = 0" "rendered st0 = 0" "wg st0 = 0" "pending st0 = 0"
    by (simp_all add: main_state_counts)
  let ?st2 = "Do_body g env st0"
  note f2 = Do_body_counts [where g = g and env = env and st = st0]
  from f2 f0 have b2: "wg ?st2 = int (pending ?st2)" by simp
  from WG_Wait_counts [OF b2, where g = g and env = env] obtain st3 where
    w: "WG_Wait g env ?st2 = Some st3" and
    f3: "attempts st3 = attempts ?st2 + pending ?st2" "rendered st3 = rendered ?st2"
      "pending st3 = 0"
    by blast
  from Summary_Stats_counts [where env = env and st = st3] obtain st4 where
    s: "Summary_Stats env st3 = Inr st4" and
    f4: "attempts st4 = attempts st3" "rendered st4 = rendered st3 + 1"
      "is_summary_line (last (out st4))" "pending st4 = pending st3"
    by blast
  have d: "main g env = Some (Inr st4)"
    by (simp add: main_def Ping_Do_def r0 Do_loop_count_zero [OF c] w s)
  from f2 f3 f4 f0 have "attempts st4 = 1" "rendered st4 = 1" "pending st4 = 0"
    by simp_all
  with d f4(3) show ?thesis by blast
qed

lemma main_count_negative:
  assumes c: "DefaultCount g <s 0" and r: "fst (Ping_Resolver g env (main_state g env)) = None"
  shows "main g env = None"
proof -
  obtain st0 where r0: "Ping_Resolver g env (main_state g env) = (None, st0)"
    using r by (cases "Ping_Resolver g env (main_state g env)") simp
  have "\<not> 0 \<le>s DefaultCount g" using c by (simp add: word_sle_eq word_sless_alt)
  then show ?thesis
    by (simp add: main_def Ping_Do_def r0 Do_loop_unbounded)
qed

lemma Ping_Do_resolution_failure:
  assumes "fst (Ping_Resolver g env st) \<noteq> None"
  shows "\<exists>e st1. Ping_Do g env st = Some (Inr st1)
           \<and> out st1 = out st @ [PrintError e]
           \<and> dials st1 = dials st \<and> summary st1 = summary st
           \<and> attempts st1 = attempts st \<and> rendered st1 = rendered st"
proof -
  obtain e st0 where r0: "Ping_Resolver g env st = (Some e, st0)"
    using assms by (cases "Ping_Resolver g env st") auto
  from Ping_Resolver_frame [where g = g and env = env and st = st] r0
  have "out st0 = out st" "dials st0 = dials st" "summary st0 = summary st"
    by simp_all
  then show ?thesis
    by (simp add: Ping_Do_def r0 attempts_def rendered_def)
qed

lemma Ping_Do_000_resolution_failure:
  assumes "fst (Ping_Resolver_000 g env st) \<noteq> None"
  shows "\<exists>e st1. Ping_Do_000 g env st = Some (Inr st1)
           \<and> out st1 = out st @ [PrintError e]
           \<and> dials st1 = dials st \<and> summary st1 = summary st
           \<and> attempts st1 = attempts st \<and> rendered st1 = rendered st"
proof -
  obtain e st0 where r0: "Ping_Resolver_000 g env st = (Some e, st0)"
    using assms by (cases "Ping_Resolver_000 g env st") auto
  from Ping_Resolver_000_frame [where g = g and env = env and st = st] r0
  have "out st0 = out st" "dials st0 = dials st" "summary st0 = summary st"
    by simp_all
  then show ?thesis
    by (simp add: Ping_Do_000_def r0 attempts_def rendered_def)
qed

text \<open>
  Claim C4. When the lookup returns an error or no address, \<open>Do\<close> of main.go and of
  part_000 return having printed the error and nothing else: no dial, no attempt, no
  summary line, the summary untouched. So a run of \<open>main\<close> prints that one line.
\<close>

theorem resolution_failure_stops:
  "(snd (LookupHost env (make_resolver g env) (host (ping st))) \<noteq> None
      \<or> fst (LookupHost env (make_resolver g env) (host (ping st))) = [] \<longrightarrow>
      (\<exists>e st1. Ping_Do g env st = Some (Inr st1)
         \<and> out st1 = out st @ [PrintError e]
         \<and> dials st1 = dials st \<and> summary st1 = summary st
         \<and> attempts st1 = attempts st \<and> rendered st1 = rendered st)
      \<and> (\<exists>e st1. Ping_Do_000 g env st = Some (Inr st1)
         \<and> out st1 = out st @ [PrintError e]
         \<and> dials st1 = dials st \<and> summary st1 = summary st
         \<and> attempts st1 = attempts st \<and> rendered st1 = rendered st))
   \<and> (snd (LookupHost env (make_resolver g env) (DefaultHost g)) \<noteq> None
      \<or> fst (LookupHost env (make_resolver g env) (DefaultHost g)) = [] \<longrightarrow>
      (\<exists>e st1. main g env = Some (Inr st1) \<and> out st1 = [PrintError e]
         \<and> dials st1 = 0 \<and> attempts st1 = 0 \<and> rendered st1 = 0)
      \<and> (\<exists>e st1. main_000 g env = Some (Inr st1) \<and> out st1 = [PrintError e]
         \<and> dials st1 = 0 \<and> attempts st1 = 0 \<and> rendered st1 = 0))"
proof -
  have general: "snd (LookupHost env (make_resolver g env) (host (ping s))) \<noteq> None
      \<or> fst (LookupHost env (make_resolver g env) (host (ping s))) = [] \<longrightarrow>
      (\<exists>e st1. Ping_Do g env s = Some (Inr st1)
         \<and> out st1 = out s @ [PrintError e]
         \<and> dials st1 = dials s \<and> summary st1 = summary s
         \<and> attempts st1 = attempts s \<and> rendered st1 = rendered s)
      \<and> (\<exists>e st1. Ping_Do_000 g env s = Some (Inr st1)
         \<and> out st1 = out s @ [PrintError e]
         \<and> dials st1 = dials s \<and> summary st1 = summary s
         \<and> attempts st1 = attempts s \<and> rendered st1 = rendered s)" for s
  proof
    assume f: "snd (LookupHost env (make_resolver g env) (host (ping s))) \<noteq> None
      \<or> fst (LookupHost env (make_resolver g env) (host (ping s))) = []"
    obtain a err where l: "LookupHost env (make_resolver g env) (host (ping s)) = (a, err)"
      by (cases "LookupHost env (make_resolver g env) (host (ping s))")
    from f l have "err \<noteq> None \<or> a = []" by simp
    with Resolver_cases(1) [OF l] Resolver_000_cases(1) [OF l]
    have "fst (Ping_Resolver g env s) \<noteq> None" "fst (Ping_Resolver_000 g env s) \<noteq> None"
      by blast+
    then show "(\<exists>e st1. Ping_Do g env s = Some (Inr st1)
         \<and> out st1 = out s @ [PrintError e]
         \<and> dials st1 = dials s \<and> summary st1 = summary s
         \<and> attempts st1 = attempts s \<and> rendered st1 = rendered s)
      \<and> (\<exists>e st1. Ping_Do_000 g env s = Some (Inr st1)
         \<and> out st1 = out s @ [PrintError e]
         \<and> dials st1 = dials s \<and> summary st1 = summary s
         \<and> attempts st1 = attempts s \<and> rendered st1 = rendered s)"
      using Ping_Do_resolution_failure Ping_Do_000_resolution_failure by blast
  qed
  have m: "host (ping (main_state g env)) = DefaultHost g" "out (main_state g env) = []"
    "dials (main_state g env) = 0"
    "host (ping (main_state_000 g env)) = DefaultHost g" "out (main_state_000 g env) = []"
    "dials (main_state_000 g env) = 0"
    by (simp_all add: main_state_def main_state_000_def)
  have mains: "snd (LookupHost env (make_resolver g env) (DefaultHost g)) \<noteq> None
      \<or> fst (LookupHost env (make_resolver g env) (DefaultHost g)) = [] \<longrightarrow>
      (\<exists>e st1. main g env = Some (Inr st1) \<and> out st1 = [PrintError e]
         \<and> dials st1 = 0 \<and> attempts st1 = 0 \<and> rendered st1 = 0)
      \<and> (\<exists>e st1. main_000 g env = Some (Inr st1) \<and> out st1 = [PrintError e]
         \<and> dials st1 = 0 \<and> attempts st1 = 0 \<and> rendered st1 = 0)"
    using general [of "main_state g env"] general [of "main_state_000 g env"]
    unfolding m main_def main_000_def
    by (simp add: main_state_counts) blast
  from general [of st] mains show ?thesis by (rule conjI)
qed

text \<open>
  The failure of claim C4 on a host with no address and on an unknown host.
\<close>

theorem resolution_failure_stops_witness:
  "fst (LookupHost sample_env (make_resolver (sample_globals\<lparr>DefaultHost := ''empty.example.org''\<rparr>) sample_env)
         (DefaultHost (sample_globals\<lparr>DefaultHost := ''empty.example.org''\<rparr>))) = []
   \<and> (\<exists>e st1. main (sample_globals\<lparr>DefaultHost := ''empty.example.org''\<rparr>) sample_env = Some (Inr st1)
         \<and> out st1 = [PrintError e] \<and> dials st1 = 0 \<and> attempts st1 = 0 \<and> rendered st1 = 0)
   \<and> (\<exists>e st1. main_000 (sample_globals\<lparr>DefaultHost := ''empty.example.org''\<rparr>) sample_env = Some (Inr st1)
         \<and> out st1 = [PrintError e] \<and> dials st1 = 0 \<and> attempts st1 = 0 \<and> rendered st1 = 0)
   \<and> snd (LookupHost sample_env (make_resolver sample_globals sample_env)
         (host (ping (with_host ''unknown.example.org'' fresh)))) \<noteq> None
   \<and> (\<exists>e st1. Ping_Do sample_globals sample_env (with_host ''unknown.example.org'' fresh) = Some (Inr st1)
         \<and> out st1 = out (with_host ''unknown.example.org'' fresh) @ [PrintError e]
         \<and> attempts st1 = attempts (with_host ''unknown.example.org'' fresh)
         \<and> rendered st1 = rendered (with_host ''unknown.example.org'' fresh))"
proof -
  let ?g = "sample_globals\<lparr>DefaultHost := ''empty.example.org''\<rparr>"
  let ?st = "with_host ''unknown.example.org'' fresh"
  have a: "fst (LookupHost sample_env (make_resolver ?g sample_env) (DefaultHost ?g)) = []"
    by (simp add: sample_env_def)
  have b: "snd (LookupHost sample_env (make_resolver sample_globals sample_env) (host (ping ?st))) \<noteq> None"
    by (simp add: sample_env_def with_host_def)
  from resolution_failure_stops [of sample_env ?g fresh] a
  have c: "(\<exists>e st1. main ?g sample_env = Some (Inr st1)
         \<and> out st1 = [PrintError e] \<and> dials st1 = 0 \<and> attempts st1 = 0 \<and> rendered st1 = 0)
   \<and> (\<exists>e st1. main_000 ?g sample_env = Some (Inr st1)
         \<and> out st1 = [PrintError e] \<and> dials st1 = 0 \<and> attempts st1 = 0 \<and> rendered st1 = 0)"
    by blast
  from resolution_failure_stops [of sample_env sample_globals ?st] b
  have d: "\<exists>e st1. Ping_Do sample_globals sample_env ?st = Some (Inr st1)
         \<and> out st1 = out ?st @ [PrintError e]
         \<and> attempts st1 = attempts ?st \<and> rendered st1 = rendered ?st"
    by blast
  from a b c d show ?thesis by blast
qed

end
